theory Spec2Isabelle
  imports Complex_Main
begin

section \<open>JavaScript numbers\<close>

text \<open>
  The program computes with JavaScript numbers. A number is modelled as NaN, one of the
  two infinities, or a finite value, a real. Zero carries no sign (a division by zero
  behaves as a division by +0). The special values follow IEEE 754 as JavaScript exposes
  it: NaN is absorbing, every comparison with NaN is false, \<open>Infinity - Infinity\<close>,
  \<open>0 * Infinity\<close>, \<open>0 / 0\<close> and \<open>Infinity / Infinity\<close> are NaN. The operations
  \<open>jadd\<close>, \<open>jsub\<close>, \<open>jmul\<close> and \<open>jdiv\<close> give the exact result on finite
  values; the operations \<open>fadd\<close>, \<open>fsub\<close>, \<open>fmul\<close> and \<open>fdiv\<close> further below round
  it as binary64 does. The activity scorer and the entry-quality classifier are written
  with the exact operations: what is proved of them (the range of the scores, the order of
  the rules, the NaN cases) does not depend on the rounding.
\<close>

datatype jsnum = NaN | NInf | Fin real | PInf

fun isFinite :: "jsnum \<Rightarrow> bool" where
  "isFinite (Fin a) = True"
| "isFinite NaN = False"
| "isFinite NInf = False"
| "isFinite PInf = False"

fun jneg :: "jsnum \<Rightarrow> jsnum" where
  "jneg NaN = NaN"
| "jneg NInf = PInf"
| "jneg (Fin a) = Fin (- a)"
| "jneg PInf = NInf"

fun jadd :: "jsnum \<Rightarrow> jsnum \<Rightarrow> jsnum" where
  "jadd (Fin a) (Fin b) = Fin (a + b)"
| "jadd NaN y = NaN"
| "jadd x NaN = NaN"
| "jadd PInf NInf = NaN"
| "jadd NInf PInf = NaN"
| "jadd PInf y = PInf"
| "jadd x PInf = PInf"
| "jadd NInf y = NInf"
| "jadd x NInf = NInf"

definition jsub :: "jsnum \<Rightarrow> jsnum \<Rightarrow> jsnum" where
  "jsub x y = jadd x (jneg y)"

text \<open>The infinity with the sign of a real, NaN for zero.\<close>

definition inf_of_sign :: "real \<Rightarrow> jsnum" where
  "inf_of_sign s = (if s = 0 then NaN else if 0 < s then PInf else NInf)"

fun jmul :: "jsnum \<Rightarrow> jsnum \<Rightarrow> jsnum" where
  "jmul (Fin a) (Fin b) = Fin (a * b)"
| "jmul NaN y = NaN"
| "jmul x NaN = NaN"
| "jmul (Fin a) PInf = inf_of_sign a"
| "jmul (Fin a) NInf = inf_of_sign (- a)"
| "jmul PInf (Fin b) = inf_of_sign b"
| "jmul NInf (Fin b) = inf_of_sign (- b)"
| "jmul PInf PInf = PInf"
| "jmul PInf NInf = NInf"
| "jmul NInf PInf = NInf"
| "jmul NInf NInf = PInf"

fun jdiv :: "jsnum \<Rightarrow> jsnum \<Rightarrow> jsnum" where
  "jdiv (Fin a) (Fin b) = (if b = 0 then inf_of_sign a else Fin (a / b))"
| "jdiv NaN y = NaN"
| "jdiv x NaN = NaN"
| "jdiv (Fin a) PInf = Fin 0"
| "jdiv (Fin a) NInf = Fin 0"
| "jdiv PInf (Fin b) = (if 0 \<le> b then PInf else NInf)"
| "jdiv NInf (Fin b) = (if 0 \<le> b then NInf else PInf)"
| "jdiv PInf PInf = NaN"
| "jdiv PInf NInf = NaN"
| "jdiv NInf PInf = NaN"
| "jdiv NInf NInf = NaN"

fun jlt :: "jsnum \<Rightarrow> jsnum \<Rightarrow> bool" where
  "jlt (Fin a) (Fin b) = (a < b)"
| "jlt NaN y = False"
| "jlt x NaN = False"
| "jlt x NInf = False"
| "jlt PInf y = False"
| "jlt NInf y = True"
| "jlt x PInf = True"

fun jle :: "jsnum \<Rightarrow> jsnum \<Rightarrow> bool" where
  "jle (Fin a) (Fin b) = (a \<le> b)"
| "jle NaN y = False"
| "jle x NaN = False"
| "jle NInf y = True"
| "jle x PInf = True"
| "jle x NInf = False"
| "jle PInf y = False"

definition jgt :: "jsnum \<Rightarrow> jsnum \<Rightarrow> bool" where
  "jgt x y = jlt y x"

definition jge :: "jsnum \<Rightarrow> jsnum \<Rightarrow> bool" where
  "jge x y = jle y x"

text \<open>\<open>Math.max\<close> and \<open>Math.min\<close> of two arguments: NaN when either is NaN.\<close>

fun jmax :: "jsnum \<Rightarrow> jsnum \<Rightarrow> jsnum" where
  "jmax NaN y = NaN"
| "jmax x NaN = NaN"
| "jmax x y = (if jlt x y then y else x)"

fun jmin :: "jsnum \<Rightarrow> jsnum \<Rightarrow> jsnum" where
  "jmin NaN y = NaN"
| "jmin x NaN = NaN"
| "jmin x y = (if jlt y x then y else x)"

text \<open>\<open>Math.max(...xs)\<close> starts from \<open>-Infinity\<close>, \<open>Math.min(...xs)\<close> from \<open>Infinity\<close>.\<close>

definition jmax_list :: "jsnum list \<Rightarrow> jsnum" where
  "jmax_list xs = foldl jmax NInf xs"

definition jmin_list :: "jsnum list \<Rightarrow> jsnum" where
  "jmin_list xs = foldl jmin PInf xs"

fun jfloor :: "jsnum \<Rightarrow> jsnum" where
  "jfloor (Fin a) = Fin (of_int \<lfloor>a\<rfloor>)"
| "jfloor x = x"

text \<open>\<open>Math.round\<close> rounds half up.\<close>

fun jround :: "jsnum \<Rightarrow> jsnum" where
  "jround (Fin a) = Fin (of_int \<lfloor>a + 1 / 2\<rfloor>)"
| "jround x = x"

fun jabs :: "jsnum \<Rightarrow> jsnum" where
  "jabs (Fin a) = Fin \<bar>a\<bar>"
| "jabs NaN = NaN"
| "jabs NInf = PInf"
| "jabs PInf = PInf"

fun jlog10 :: "jsnum \<Rightarrow> jsnum" where
  "jlog10 (Fin a) = (if a < 0 then NaN else if a = 0 then NInf else Fin (log 10 a))"
| "jlog10 NaN = NaN"
| "jlog10 NInf = NaN"
| "jlog10 PInf = PInf"

subsection \<open>Rounding to binary64\<close>

text \<open>
  Where a result is claimed as a value (the R multiple; in the structure engine the
  comparators, the distances, the 15 percent bound, and the room to the target with its
  print), the arithmetic is that of binary64: each of \<open>+\<close>, \<open>-\<close>, \<open>*\<close> and
  \<open>/\<close> returns its exact result rounded to the nearest double, a tie going to the even
  significand. A double has 53 significant bits; the doubles between \<open>2^e\<close> and
  \<open>2^(e+1)\<close> are \<open>2^(e-52)\<close> apart, those below \<open>2^(-1022)\<close> are
  \<open>2^(-1074)\<close> apart, and a result that rounds to \<open>2^1024\<close> or beyond is infinite.
  The sign of a zero result is the one thing left out.
\<close>

definition round_half_even :: "real \<Rightarrow> int" where
  "round_half_even t =
     (let f = \<lfloor>t\<rfloor>; d = t - of_int f
      in if d < 1 / 2 then f
         else if 1 / 2 < d then f + 1
         else if even f then f else f + 1)"

definition binade :: "real \<Rightarrow> int" where
  "binade x = max \<lfloor>log 2 \<bar>x\<bar>\<rfloor> (- 1022)"

text \<open>The spacing of the doubles around \<open>x\<close>, and \<open>\<bar>x\<bar>\<close> rounded to a multiple of it.\<close>

definition ulp :: "real \<Rightarrow> real" where
  "ulp x = 2 powr of_int (binade x - 52)"

definition rounded_mag :: "real \<Rightarrow> real" where
  "rounded_mag x = of_int (round_half_even (\<bar>x\<bar> / ulp x)) * ulp x"

definition fl64 :: "real \<Rightarrow> jsnum" where
  "fl64 x =
     (if x = 0 then Fin 0
      else if 2 ^ 1024 \<le> rounded_mag x then (if 0 < x then PInf else NInf)
      else Fin (sgn x * rounded_mag x))"

fun frnd :: "jsnum \<Rightarrow> jsnum" where
  "frnd (Fin x) = fl64 x"
| "frnd NaN = NaN"
| "frnd NInf = NInf"
| "frnd PInf = PInf"

definition fadd :: "jsnum \<Rightarrow> jsnum \<Rightarrow> jsnum" where
  "fadd x y = frnd (jadd x y)"

definition fsub :: "jsnum \<Rightarrow> jsnum \<Rightarrow> jsnum" where
  "fsub x y = frnd (jsub x y)"

definition fmul :: "jsnum \<Rightarrow> jsnum \<Rightarrow> jsnum" where
  "fmul x y = frnd (jmul x y)"

definition fdiv :: "jsnum \<Rightarrow> jsnum \<Rightarrow> jsnum" where
  "fdiv x y = frnd (jdiv x y)"

text \<open>A number that a double can hold: rounding leaves it as it is.\<close>

fun is_double :: "jsnum \<Rightarrow> bool" where
  "is_double (Fin x) = (fl64 x = Fin x)"
| "is_double NaN = True"
| "is_double NInf = True"
| "is_double PInf = True"

section \<open>Helpers of the program\<close>

text \<open>\<open>const clamp = (n, a, b) => Math.max(a, Math.min(b, n))\<close>\<close>

definition clamp :: "jsnum \<Rightarrow> jsnum \<Rightarrow> jsnum \<Rightarrow> jsnum" where
  "clamp n a b = jmax a (jmin b n)"

section \<open>R multiple\<close>

datatype Side = LONG | SHORT

text \<open>
  \<open>computeR\<close>: NaN unless entry, stop and exit are all finite and the risk is
  positive. The \<open>typeof x === "number"\<close> test holds by typing. The two
  subtractions and the division round as binary64 does.
\<close>

definition computeR :: "Side \<Rightarrow> jsnum \<Rightarrow> jsnum \<Rightarrow> jsnum \<Rightarrow> jsnum" where
  "computeR side entry stop exit =
     (if \<not> list_all isFinite [entry, stop, exit] then NaN
      else (case side of
              LONG \<Rightarrow>
                (let risk = fsub entry stop
                 in if jle risk (Fin 0) then NaN else fdiv (fsub exit entry) risk)
            | SHORT \<Rightarrow>
                (let risk = fsub stop entry
                 in if jle risk (Fin 0) then NaN else fdiv (fsub entry exit) risk)))"

section \<open>Strings\<close>

text \<open>
  Strings are byte lists in UTF-8. The two characters of the program's messages that lie
  outside ASCII are the em dash (U+2014) and the right single quotation mark (U+2019).
\<close>

definition emdash :: string where
  "emdash = [CHR 0xE2, CHR 0x80, CHR 0x94]"

definition rsquo :: string where
  "rsquo = [CHR 0xE2, CHR 0x80, CHR 0x99]"

definition digit_char :: "nat \<Rightarrow> char" where
  "digit_char d = ''0123456789'' ! (d mod 10)"

fun digits :: "nat \<Rightarrow> string" where
  "digits n = (if n < 10 then [digit_char n] else digits (n div 10) @ [digit_char (n mod 10)])"

declare digits.simps [simp del]

text \<open>
  \<open>x.toFixed(2)\<close>: NaN and the infinities print by name; a finite value is rounded to
  the nearest hundredth (the larger one on a tie, on the absolute value) and printed with
  a sign, the integer part and two decimals. For magnitudes of \<open>10^21\<close> and above
  JavaScript switches to exponent notation, which depends on the binary representation;
  the model prints positional digits there, and nothing below depends on that range.
\<close>

fun toFixed2 :: "jsnum \<Rightarrow> string" where
  "toFixed2 NaN = ''NaN''"
| "toFixed2 PInf = ''Infinity''"
| "toFixed2 NInf = ''-Infinity''"
| "toFixed2 (Fin x) =
     (let n = nat \<lfloor>\<bar>x\<bar> * 100 + 1 / 2\<rfloor>
      in (if x < 0 then ''-'' else []) @ digits (n div 100) @ ''.'' @
         [digit_char (n mod 100 div 10), digit_char (n mod 10)])"

text \<open>
  \<open>xs[i]\<close> for an integer index: \<open>undefined\<close> (here \<open>None\<close>) out of range.
\<close>

definition js_index :: "'a list \<Rightarrow> int \<Rightarrow> 'a option" where
  "js_index xs i = (if 0 \<le> i \<and> i < int (length xs) then Some (xs ! nat i) else None)"

text \<open>\<open>v ?? d\<close>\<close>

definition nullish :: "'a option \<Rightarrow> 'a \<Rightarrow> 'a" where
  "nullish v d = (case v of None \<Rightarrow> d | Some x \<Rightarrow> x)"

text \<open>
  \<open>xs.sort(cmp)\<close> is a stable sort: \<open>a\<close> goes after \<open>b\<close> only when
  \<open>cmp(a, b) > 0\<close>, and a NaN result counts as 0. For a comparator that is a
  consistent order the result is the stable insertion sort below; for an inconsistent
  one (which needs NaN keys) JavaScript leaves the order to the implementation.
\<close>

fun insort_cmp :: "('a \<Rightarrow> 'a \<Rightarrow> jsnum) \<Rightarrow> 'a \<Rightarrow> 'a list \<Rightarrow> 'a list" where
  "insort_cmp cmp x [] = [x]"
| "insort_cmp cmp x (y # ys) =
     (if jgt (cmp x y) (Fin 0) then y # insort_cmp cmp x ys else x # y # ys)"

definition js_sort :: "('a \<Rightarrow> 'a \<Rightarrow> jsnum) \<Rightarrow> 'a list \<Rightarrow> 'a list" where
  "js_sort cmp xs = foldr (insort_cmp cmp) xs []"

section \<open>Activity scorer\<close>

text \<open>\<open>MarketRow\<close>; an optional field is an option.\<close>

record MarketRow =
  symbol :: string
  cgId :: "string option"
  name :: "string option"
  priceUsd :: "jsnum option"
  change24h :: "jsnum option"
  volume24hUsd :: "jsnum option"

record Score =
  combinedScore :: jsnum
  score15m :: jsnum
  score1h :: jsnum
  volFactor :: jsnum
  why :: "string list"

text \<open>The locals \<open>volFactor\<close>, \<open>changeScore\<close> and \<open>volScore\<close> of \<open>scoreSetup\<close>.\<close>

definition volFactor_of :: "jsnum \<Rightarrow> jsnum \<Rightarrow> jsnum" where
  "volFactor_of vol baselineVol = (if jgt baselineVol (Fin 0) then jdiv vol baselineVol else Fin 1)"

definition changeScore :: "jsnum \<Rightarrow> jsnum" where
  "changeScore ch = clamp (jadd (Fin 50) (jmul ch (Fin 4))) (Fin 0) (Fin 100)"

definition volScore :: "jsnum \<Rightarrow> jsnum" where
  "volScore vf = clamp (jadd (Fin 50) (jmul (jlog10 (jmax (Fin 1) vf)) (Fin 25))) (Fin 0) (Fin 100)"

definition scoreSetup :: "MarketRow \<Rightarrow> jsnum \<Rightarrow> Score" where
  "scoreSetup row baselineVol =
     (let ch = nullish (change24h row) (Fin 0);
          vol = nullish (volume24hUsd row) (Fin 0);
          vf = volFactor_of vol baselineVol;
          cs = changeScore ch;
          vs = volScore vf;
          s15 = clamp (jadd (jadd (jmul cs (Fin (55 / 100))) (jmul vs (Fin (45 / 100)))) (Fin 4))
                  (Fin 0) (Fin 100);
          s1h = clamp (jadd (jmul cs (Fin (65 / 100))) (jmul vs (Fin (35 / 100)))) (Fin 0) (Fin 100);
          combined = clamp (jadd (jmul s15 (Fin (48 / 100))) (jmul s1h (Fin (52 / 100))))
                       (Fin 0) (Fin 100);
          w = (if jge combined (Fin 80) then [''High participation + strong tape''] else [])
            @ (if jge combined (Fin 65) \<and> jlt combined (Fin 80) then [''Tradable activity''] else [])
            @ (if jge vf (Fin (13 / 10)) then [''Volume elevated vs baseline''] else [])
            @ (if jge ch (Fin 3) then [''Positive 24h trend''] else [])
            @ (if jlt ch (Fin 0) then [''24h negative '' @ emdash @ '' be selective''] else [])
      in \<lparr> combinedScore = combined, score15m = s15, score1h = s1h, volFactor = vf, why = w \<rparr>)"

section \<open>Entry-quality classifier\<close>

datatype EntryQuality = VALID | EXTENDED | NO_EDGE

record MicroMetrics =
  ret1h :: jsnum
  ret4h :: jsnum
  dropFromHigh6h :: jsnum
  spikeFromLow6h :: jsnum
  entryQuality :: EntryQuality
  whyNot :: "string list"

text \<open>\<open>((a - b) / b) * 100\<close>\<close>

definition pct :: "jsnum \<Rightarrow> jsnum \<Rightarrow> jsnum" where
  "pct a b = jmul (jdiv (jsub a b) b) (Fin 100)"

text \<open>
  \<open>computeMicro\<close>. The source starts from \<open>VALID\<close> with no reasons and overwrites
  both in the first branch of the if / else-if chain whose test holds.
\<close>

definition computeMicro :: "jsnum list \<Rightarrow> MicroMetrics" where
  "computeMicro prices =
     (let n = int (length prices);
          last = nullish (js_index prices (n - 1)) NaN;
          p1h = nullish (js_index prices (max 0 (n - 2))) NaN;
          p4h = nullish (js_index prices (max 0 (n - 5))) NaN;
          window6h = drop (nat (max 0 (n - 7))) prices;
          high6h = jmax_list window6h;
          low6h = jmin_list window6h;
          r1 = pct last p1h;
          r4 = pct last p4h;
          dh = pct last high6h;
          sl = pct last low6h;
          (q, w) =
            (if jle r1 (Fin (- 3)) then
               (NO_EDGE,
                [''Fast dump: '' @ toFixed2 r1 @ ''% in ~1h'',
                 ''Wait for base or reclaim before considering entry.''])
             else if jle dh (Fin (- 4)) then
               (EXTENDED,
                [''Pullback: '' @ toFixed2 dh @ ''% from 6h high'',
                 ''WAIT for base / reclaim '' @ emdash @ '' avoid guessing.''])
             else if jge sl (Fin 6) then
               (EXTENDED,
                [''Extended: +'' @ toFixed2 sl @ ''% from 6h low'',
                 ''Don'' @ rsquo @ ''t chase. Wait for pullback + retest.''])
             else (VALID, []))
      in \<lparr> ret1h = r1, ret4h = r4, dropFromHigh6h = dh, spikeFromLow6h = sl,
           entryQuality = q, whyNot = w \<rparr>)"

section \<open>Structure engine\<close>

record Candle1h =
  h :: jsnum
  l :: jsnum

text \<open>A zone as \<open>countZones\<close> returns it; \<open>strength\<close> is an occurrence count.\<close>

record PivotZone =
  price :: jsnum
  strength :: nat

record Levels =
  supports :: "PivotZone list"
  resistances :: "PivotZone list"

text \<open>
  One turn of the pivot loop at index \<open>i\<close>; the state is the pair of the arrays
  \<open>supports\<close> and \<open>resistances\<close>. The loop runs \<open>i\<close> from 2 while
  \<open>i < candles.length - 2\<close>, so \<open>i - 1\<close> and \<open>i + 1\<close> are in range.
\<close>

definition pivot_step :: "Candle1h list \<Rightarrow> jsnum list \<times> jsnum list \<Rightarrow> nat \<Rightarrow> jsnum list \<times> jsnum list" where
  "pivot_step candles acc i =
     (let hi = h (candles ! i);
          lo = l (candles ! i);
          res = (if jgt hi (h (candles ! (i - 1))) \<and> jgt hi (h (candles ! (i + 1)))
                 then snd acc @ [hi] else snd acc);
          sup = (if jlt lo (l (candles ! (i - 1))) \<and> jlt lo (l (candles ! (i + 1)))
                 then fst acc @ [lo] else fst acc)
      in (sup, res))"

definition zone :: "jsnum \<Rightarrow> jsnum" where
  "zone x =
     (if jge x (Fin 1000) then jmul (jround (jdiv x (Fin 10))) (Fin 10)
      else if jge x (Fin 100) then jmul (jround (jdiv x (Fin 1))) (Fin 1)
      else if jge x (Fin 1) then jmul (jround (jdiv x (Fin (1 / 100)))) (Fin (1 / 100))
      else jmul (jround (jdiv x (Fin (1 / 1000000)))) (Fin (1 / 1000000)))"

text \<open>
  \<open>map.set(k, (map.get(k) ?? 0) + 1)\<close> on a \<open>Map\<close>, kept as an association list in
  insertion order: a key already present keeps its place.
\<close>

fun map_bump :: "jsnum \<Rightarrow> (jsnum \<times> nat) list \<Rightarrow> (jsnum \<times> nat) list" where
  "map_bump k [] = [(k, 1)]"
| "map_bump k ((k', c) # m) = (if k' = k then (k', c + 1) # m else (k', c) # map_bump k m)"

definition countZones :: "jsnum list \<Rightarrow> PivotZone list" where
  "countZones arr =
     map (\<lambda>(p, s). \<lparr> price = p, strength = s \<rparr>) (foldl (\<lambda>m p. map_bump (zone p) m) [] arr)"

definition computePivotLevels1h :: "Candle1h list \<Rightarrow> Levels" where
  "computePivotLevels1h candles =
     (let acc = foldl (pivot_step candles) ([], []) [2 ..< length candles - 2]
      in \<lparr> supports = countZones (fst acc), resistances = countZones (snd acc) \<rparr>)"

text \<open>
  The labels \<open>"OK" | "WAIT" | "NO_EDGE"\<close> of a structure result; \<open>NO_EDGE\<close> is
  already the entry-quality label, so the structure one is \<open>STRUCT_NO_EDGE\<close>.
\<close>

datatype StructureLabel = OK | WAIT | STRUCT_NO_EDGE

datatype StructureSource = BINANCE_1H | MISSING

record StructureResult =
  ok :: bool
  label :: StructureLabel
  reasons :: "string list"
  support :: "jsnum option"
  resistance :: "jsnum option"
  roomTo2R :: "jsnum option"
  source :: StructureSource

definition weak_levels_msg :: string where
  "weak_levels_msg = ''Levels are weak (low touches). Be extra selective.''"

definition room_fails_msg :: "jsnum \<Rightarrow> string" where
  "room_fails_msg r = ''Room-to-2R fails: only '' @ toFixed2 r @ ''R available.''"

text \<open>
  The locals \<open>supportsBelow\<close>, \<open>resistAbove\<close>, \<open>candidates\<close> and \<open>chosen\<close>. The
  differences in the comparators, the distances, the 15 percent bound and the room are
  rounded results; the literal \<open>0.15\<close> is the double nearest to \<open>15 / 100\<close>.
\<close>

definition supportsBelow :: "jsnum \<Rightarrow> Levels \<Rightarrow> PivotZone list" where
  "supportsBelow lastPrice levels =
     js_sort (\<lambda>a b. fsub (price b) (price a))
       (filter (\<lambda>x. jlt (price x) lastPrice) (supports levels))"

definition resistAbove :: "jsnum \<Rightarrow> Levels \<Rightarrow> PivotZone list" where
  "resistAbove lastPrice levels =
     js_sort (\<lambda>a b. fsub (price a) (price b))
       (filter (\<lambda>x. jgt (price x) lastPrice) (resistances levels))"

definition candidates :: "jsnum \<Rightarrow> Levels \<Rightarrow> PivotZone list" where
  "candidates lastPrice levels =
     (let maxTargetDistance = fmul lastPrice (fl64 (15 / 100))
      in filter (\<lambda>r. jle (fsub (price r) lastPrice) maxTargetDistance) (resistAbove lastPrice levels))"

definition chosen :: "jsnum \<Rightarrow> jsnum \<Rightarrow> Levels \<Rightarrow> PivotZone option" where
  "chosen lastPrice risk levels =
     (case find (\<lambda>r. jge (fdiv (fsub (price r) lastPrice) risk) (Fin 2)) (candidates lastPrice levels) of
        Some c \<Rightarrow> Some c
      | None \<Rightarrow> js_index (candidates lastPrice levels) 0)"

definition evaluateStructure :: "jsnum \<Rightarrow> Levels \<Rightarrow> StructureResult" where
  "evaluateStructure lastPrice levels =
     (case supportsBelow lastPrice levels of
        [] \<Rightarrow>
          \<lparr> ok = False, label = WAIT,
            reasons = [''No support below '' @ emdash @ '' stop is guesswork.''],
            support = None, resistance = None, roomTo2R = None, source = BINANCE_1H \<rparr>
      | s0 # rest \<Rightarrow>
          (let sup = price s0;
               risk = fsub lastPrice sup
           in if \<not> jgt risk (Fin 0) then
                \<lparr> ok = False, label = STRUCT_NO_EDGE,
                  reasons = [''Invalid structure: support not below price.''],
                  support = Some sup, resistance = None, roomTo2R = None, source = BINANCE_1H \<rparr>
              else
                (case chosen lastPrice risk levels of
                   None \<Rightarrow>
                     \<lparr> ok = False, label = WAIT,
                       reasons = [''No resistance above '' @ emdash @ '' target unclear.''],
                       support = Some sup, resistance = None, roomTo2R = None,
                       source = BINANCE_1H \<rparr>
                 | Some c \<Rightarrow>
                     (let res = price c;
                          room = fdiv (fsub res lastPrice) risk
                      in if jlt room (Fin 2) then
                           \<lparr> ok = False, label = STRUCT_NO_EDGE, reasons = [room_fails_msg room],
                             support = Some sup, resistance = Some res, roomTo2R = Some room,
                             source = BINANCE_1H \<rparr>
                         else
                           \<lparr> ok = True, label = OK,
                             reasons = (if strength s0 < 2 \<or> strength c < 2
                                        then [weak_levels_msg] else []),
                             support = Some sup, resistance = Some res, roomTo2R = Some room,
                             source = BINANCE_1H \<rparr>))))"

section \<open>Local persistence\<close>

text \<open>
  A value as \<open>JSON.parse\<close> returns it. An object is the list of its own properties;
  a property read takes the first entry of a name, so a parser resolves duplicate
  keys before it builds the list.
\<close>

datatype json =
    JNull
  | JBool bool
  | JNum jsnum
  | JStr string
  | JArr "json list"
  | JObj "(string \<times> json) list"

text \<open>
  \<open>v.name\<close> for a name that no prototype defines (such as \<open>dayKey\<close>):
  \<open>undefined\<close> (here \<open>None\<close>) unless \<open>v\<close> is an object with that own
  property. On \<open>null\<close> the plain read throws and \<open>v?.name\<close> is \<open>undefined\<close>;
  both callers below reach \<open>null\<close> only through \<open>?.\<close> or behind \<open>!v\<close>.
\<close>

fun get_prop :: "json \<Rightarrow> string \<Rightarrow> json option" where
  "get_prop (JObj kvs) k = map_of kvs k"
| "get_prop v k = None"

text \<open>\<open>!v\<close> is true for \<open>null\<close>, \<open>false\<close>, \<open>0\<close>, NaN and the empty string.\<close>

fun falsy :: "json \<Rightarrow> bool" where
  "falsy JNull = True"
| "falsy (JBool b) = (\<not> b)"
| "falsy (JNum x) = (x = Fin 0 \<or> x = NaN)"
| "falsy (JStr s) = (s = [])"
| "falsy (JArr xs) = False"
| "falsy (JObj kvs) = False"

text \<open>
  \<open>localStorage.getItem(key)\<close>: it throws (a browser may refuse access), returns
  \<open>null\<close> for a missing key, or returns the stored string.
\<close>

datatype GetItem = GetThrows | GetNull | GetString string

type_synonym Storage = "string \<Rightarrow> GetItem"

definition LS_COMMIT :: string where
  "LS_COMMIT = ''ob:commit''"

definition LS_DAYSTATE :: string where
  "LS_DAYSTATE = ''ob:daystate''"

text \<open>
  \<open>loadCommit\<close>. \<open>parse\<close> is \<open>JSON.parse\<close>, \<open>None\<close> where it throws; the
  \<open>catch\<close> turns every throw into \<open>null\<close>. The cast \<open>as CommitConfig\<close> checks
  nothing, so the result is the parsed value itself; \<open>None\<close> is \<open>null\<close>.
\<close>

definition loadCommit :: "(string \<Rightarrow> json option) \<Rightarrow> Storage \<Rightarrow> string \<Rightarrow> json option" where
  "loadCommit parse ls dayKey =
     (case ls LS_COMMIT of
        GetThrows \<Rightarrow> None
      | GetNull \<Rightarrow> None
      | GetString raw \<Rightarrow>
          (if raw = [] then None
           else (case parse raw of
                   None \<Rightarrow> None
                 | Some parsed \<Rightarrow>
                     (if get_prop parsed ''dayKey'' = Some (JStr dayKey) then Some parsed else None))))"

text \<open>The object literal \<open>{ dayKey, locked: false, trades: [] }\<close>.\<close>

definition freshDayState :: "string \<Rightarrow> json" where
  "freshDayState dayKey =
     JObj [(''dayKey'', JStr dayKey), (''locked'', JBool False), (''trades'', JArr [])]"

definition loadDayState :: "(string \<Rightarrow> json option) \<Rightarrow> Storage \<Rightarrow> string \<Rightarrow> json" where
  "loadDayState parse ls dayKey =
     (case ls LS_DAYSTATE of
        GetThrows \<Rightarrow> freshDayState dayKey
      | GetNull \<Rightarrow> freshDayState dayKey
      | GetString raw \<Rightarrow>
          (if raw = [] then freshDayState dayKey
           else (case parse raw of
                   None \<Rightarrow> freshDayState dayKey
                 | Some parsed \<Rightarrow>
                     (if falsy parsed \<or> get_prop parsed ''dayKey'' \<noteq> Some (JStr dayKey)
                      then freshDayState dayKey else parsed))))"

section \<open>Session clock\<close>

text \<open>
  The quality tiers \<open>"TRADE" | "SELECTIVE" | "WAIT"\<close>; \<open>WAIT\<close> is already a
  structure label, so the session one is \<open>SESSION_WAIT\<close>.
\<close>

datatype SessionStatus = TRADE | SELECTIVE | SESSION_WAIT

text \<open>
  The fields of \<open>SessionInfo\<close> that the guard reads. \<open>computeSession\<close> takes the
  local hour and minute of \<open>now\<close>; the note, the colour, the next boundary and the
  countdown are presentation and are left out.
\<close>

record SessionInfo =
  session :: string
  status :: SessionStatus

definition computeSession :: "nat \<Rightarrow> nat \<Rightarrow> SessionInfo" where
  "computeSession hours minutes =
     (let curMinutes = hours * 60 + minutes;
          B_ASIA = 7 * 60;
          B_EU = 16 * 60;
          B_OVERLAP = 21 * 60;
          B_0100 = 1 * 60;
          B_US_END = 6 * 60;
          B_OFF_END = 7 * 60
      in if B_ASIA \<le> curMinutes \<and> curMinutes < B_EU then
           \<lparr> session = ''ASIA'', status = SELECTIVE \<rparr>
         else if B_EU \<le> curMinutes \<and> curMinutes < B_OVERLAP then
           \<lparr> session = ''EUROPE'', status = TRADE \<rparr>
         else if B_OVERLAP \<le> curMinutes \<or> curMinutes < B_0100 then
           \<lparr> session = ''EUROPE + US OVERLAP'', status = TRADE \<rparr>
         else if B_0100 \<le> curMinutes \<and> curMinutes < B_US_END then
           \<lparr> session = ''US'', status = TRADE \<rparr>
         else if B_US_END \<le> curMinutes \<and> curMinutes < B_OFF_END then
           \<lparr> session = ''OFF-PEAK'', status = SESSION_WAIT \<rparr>
         else \<lparr> session = ''OFF-PEAK'', status = SESSION_WAIT \<rparr>)"

section \<open>Commitment, ledger and session guard\<close>

record CommitConfig =
  dayKey :: string
  committedAtIso :: string
  maxTrades :: jsnum
  maxDailyLossR :: jsnum
  maxConsecutiveLosses :: jsnum
  riskPct :: jsnum
  allowAsia :: bool
  allowEurope :: bool
  allowUS :: bool
  allowOverlap :: bool
  allowOffPeak :: bool

text \<open>\<open>TradeRecord\<close>; the fields \<open>id\<close> and \<open>note\<close> are \<open>id'\<close> and \<open>note'\<close> here.\<close>

record TradeRecord =
  id' :: string
  tsIso :: string
  symbol :: string
  side :: Side
  entry :: jsnum
  stop :: jsnum
  exit :: jsnum
  r :: jsnum
  rulesFollowed :: bool
  note' :: "string option"

record DayState =
  dayKey :: string
  locked :: bool
  lockedReason :: "string option"
  trades :: "TradeRecord list"

text \<open>The two fields of \<open>SetupRow\<close> that the per-coin check reads.\<close>

record SetupRow =
  entryQuality :: EntryQuality
  structureLabel :: StructureLabel

text \<open>
  The state cells (\<open>useState\<close>) of the component that the modelled handlers read or
  write. The time-dependent values \<open>todayKey\<close> and \<open>sessionInfo\<close> are arguments of
  the functions that use them.
\<close>

record App =
  overrideGuard :: bool
  market :: "MarketRow list"
  microMap :: "string \<rightharpoonup> MicroMetrics"
  structMap :: "string \<rightharpoonup> StructureResult"
  focusSymbol :: string
  riskPct :: jsnum
  entryPrice :: jsnum
  stopPrice :: jsnum
  logOpen :: bool
  logSide :: Side
  logEntry :: jsnum
  logStop :: jsnum
  logExit :: jsnum
  logRulesFollowed :: bool
  logNote :: string
  commit :: "CommitConfig option"
  dayState :: DayState
  commitDraft :: CommitConfig
  isLoading :: bool
  lastUpdated :: "jsnum option"
  error :: "string option"

definition commitRequired :: "string \<Rightarrow> App \<Rightarrow> bool" where
  "commitRequired todayKey app =
     (case commit app of None \<Rightarrow> True | Some c \<Rightarrow> CommitConfig.dayKey c \<noteq> todayKey)"

definition tradesToday :: "App \<Rightarrow> nat" where
  "tradesToday app = length (trades (dayState app))"

definition rToday :: "App \<Rightarrow> jsnum" where
  "rToday app =
     foldl (\<lambda>acc t. jadd acc (if isFinite (r t) then r t else Fin 0)) (Fin 0) (trades (dayState app))"

text \<open>The loop counts the trades with \<open>r < 0\<close> from the last one back to the first other.\<close>

definition consecutiveLosses :: "App \<Rightarrow> nat" where
  "consecutiveLosses app =
     length (takeWhile (\<lambda>t. jlt (r t) (Fin 0)) (rev (trades (dayState app))))"

definition sessionAllowedByCommit :: "SessionInfo \<Rightarrow> App \<Rightarrow> bool" where
  "sessionAllowedByCommit sessionInfo app =
     (case commit app of
        None \<Rightarrow> False
      | Some c \<Rightarrow>
          (let s = session sessionInfo
           in if s = ''ASIA'' then allowAsia c
              else if s = ''EUROPE'' then allowEurope c
              else if s = ''US'' then allowUS c
              else if s = ''EUROPE + US OVERLAP'' then allowOverlap c
              else allowOffPeak c))"

definition tradingAllowed :: "string \<Rightarrow> SessionInfo \<Rightarrow> App \<Rightarrow> bool" where
  "tradingAllowed todayKey sessionInfo app =
     (if commitRequired todayKey app then False
      else if locked (dayState app) then False
      else (let waitBlocks = (status sessionInfo = SESSION_WAIT \<and> \<not> overrideGuard app);
                commitBlocks = (\<not> sessionAllowedByCommit sessionInfo app \<and> \<not> overrideGuard app)
            in if waitBlocks then False
               else if commitBlocks then False
               else True))"

definition coinActionAllowed :: "string \<Rightarrow> SessionInfo \<Rightarrow> App \<Rightarrow> SetupRow \<Rightarrow> bool" where
  "coinActionAllowed todayKey sessionInfo app s =
     (if \<not> tradingAllowed todayKey sessionInfo app then False
      else if overrideGuard app then True
      else if entryQuality s = NO_EDGE then False
      else if structureLabel s \<noteq> OK then False
      else True)"

text \<open>
  \<open>s.trim()\<close>, for the ASCII white space (space, tab, line feed, vertical tab, form
  feed, carriage return); the white space outside ASCII is not modelled.
\<close>

definition is_space :: "char \<Rightarrow> bool" where
  "is_space c = (c \<in> set [CHR '' '', CHR 0x09, CHR 0x0A, CHR 0x0B, CHR 0x0C, CHR 0x0D])"

definition trim :: "string \<Rightarrow> string" where
  "trim s = rev (dropWhile is_space (rev (dropWhile is_space s)))"

text \<open>
  \<open>addTrade\<close>. The fresh \<open>uuid()\<close> and the time stamp \<open>new Date().toISOString()\<close>
  are arguments. On an R that is not finite the handler alerts and returns.
\<close>

definition addTrade :: "string \<Rightarrow> string \<Rightarrow> App \<Rightarrow> App" where
  "addTrade uuid nowIso app =
     (let rr = computeR (logSide app) (logEntry app) (logStop app) (logExit app)
      in if \<not> isFinite rr then app
         else
           (let trade =
                  \<lparr> id' = uuid, tsIso = nowIso, symbol = focusSymbol app, side = logSide app,
                    entry = logEntry app, stop = logStop app, exit = logExit app, r = rr,
                    rulesFollowed = logRulesFollowed app,
                    note' = (if trim (logNote app) \<noteq> [] then Some (trim (logNote app)) else None) \<rparr>
            in app \<lparr> dayState := (dayState app) \<lparr> trades := trades (dayState app) @ [trade] \<rparr>,
                     logOpen := False \<rparr>))"

text \<open>
  \<open>openLogFromCurrent\<close> behind its two buttons, both \<open>disabled={!tradingAllowed}\<close>:
  a disabled button runs no handler.
\<close>

definition openLogFromCurrent :: "App \<Rightarrow> App" where
  "openLogFromCurrent app =
     app \<lparr> logSide := LONG, logEntry := entryPrice app, logStop := stopPrice app,
           logExit := entryPrice app, logRulesFollowed := True, logNote := [], logOpen := True \<rparr>"

definition clickLogTrade :: "string \<Rightarrow> SessionInfo \<Rightarrow> App \<Rightarrow> App" where
  "clickLogTrade todayKey sessionInfo app =
     (if tradingAllowed todayKey sessionInfo app then openLogFromCurrent app else app)"

definition endSessionNow :: "App \<Rightarrow> App" where
  "endSessionNow app =
     app \<lparr> dayState := (dayState app)
             \<lparr> locked := True,
               lockedReason :=
                 Some (''Manual END SESSION '' @ emdash @ '' you chose capital protection.'') \<rparr> \<rparr>"

text \<open>
  \<open>clearToday\<close>; \<open>confirmed\<close> is the answer to the \<open>confirm\<close> dialog. The handler
  also writes the fresh state to \<open>localStorage\<close>, which no function here reads back.
\<close>

definition clearToday :: "bool \<Rightarrow> string \<Rightarrow> App \<Rightarrow> App" where
  "clearToday confirmed todayKey app =
     (if \<not> confirmed then app
      else app \<lparr> dayState :=
                   \<lparr> dayKey = todayKey, locked = False, lockedReason = None, trades = [] \<rparr> \<rparr>)"

text \<open>
  The auto-lock effect, run after every change of the state. \<open>numToString\<close> is JavaScript's
  conversion of a number to a string inside a template literal.
\<close>

definition fmtR :: "jsnum \<Rightarrow> string" where
  "fmtR x = (if isFinite x then (if jge x (Fin 0) then ''+'' else []) @ toFixed2 x @ ''R''
             else emdash)"

definition lockWith :: "string \<Rightarrow> App \<Rightarrow> App" where
  "lockWith reason app = app \<lparr> dayState := (dayState app) \<lparr> locked := True, lockedReason := Some reason \<rparr> \<rparr>"

definition autoLock :: "(jsnum \<Rightarrow> string) \<Rightarrow> string \<Rightarrow> App \<Rightarrow> App" where
  "autoLock numToString todayKey app =
     (if commitRequired todayKey app then app
      else if locked (dayState app) then app
      else (case commit app of
              None \<Rightarrow> app
            | Some c \<Rightarrow>
                (if jge (Fin (real (tradesToday app))) (maxTrades c) then
                   lockWith (''Max trades reached ('' @ numToString (maxTrades c) @ ''). Session complete.'') app
                 else if jle (rToday app) (jneg (jabs (maxDailyLossR c))) then
                   lockWith (''Daily loss limit hit ('' @ fmtR (rToday app) @ '' '' @
                             [CHR 0xE2, CHR 0x89, CHR 0xA4] @ '' -'' @
                             numToString (jabs (maxDailyLossR c)) @ ''R). Stop trading.'') app
                 else if jge (Fin (real (consecutiveLosses app))) (maxConsecutiveLosses c) then
                   lockWith (''Consecutive losses hit ('' @
                             numToString (Fin (real (consecutiveLosses app))) @ ''). Stop trading.'') app
                 else app)))"

text \<open>\<open>defaultCommit(dk)\<close>, with its time stamp as an argument.\<close>

definition defaultCommit :: "string \<Rightarrow> string \<Rightarrow> CommitConfig" where
  "defaultCommit nowIso dk =
     \<lparr> CommitConfig.dayKey = dk, committedAtIso = nowIso, maxTrades = Fin 2,
       maxDailyLossR = Fin 2, maxConsecutiveLosses = Fin 2, CommitConfig.riskPct = Fin 2,
       allowAsia = False, allowEurope = True,
       allowUS = True, allowOverlap = True, allowOffPeak = False \<rparr>"

text \<open>
  \<open>commitToday\<close>; the time stamp is an argument. The handler also writes the contract
  to \<open>localStorage\<close>.
\<close>

definition commitToday :: "string \<Rightarrow> string \<Rightarrow> App \<Rightarrow> App" where
  "commitToday nowIso todayKey app =
     (let d = commitDraft app;
          c = d \<lparr> CommitConfig.dayKey := todayKey,
                  committedAtIso := nowIso,
                  CommitConfig.riskPct := clamp (CommitConfig.riskPct d) (Fin (1 / 10)) (Fin 5),
                  maxTrades := jmax (Fin 1) (jfloor (maxTrades d)),
                  maxDailyLossR := jmax (Fin (1 / 2)) (maxDailyLossR d),
                  maxConsecutiveLosses := jmax (Fin 1) (jfloor (maxConsecutiveLosses d)) \<rparr>
      in app \<lparr> commit := Some c, riskPct := CommitConfig.riskPct c \<rparr>)"

text \<open>
  The operations that write \<open>dayState\<close> within a day, as one type: the three handlers
  and the auto-lock effect. (At a change of day the roll-over effect replaces the state by
  \<open>loadDayState\<close> of the new day.)
\<close>

datatype DayOp =
    OpAddTrade string string
  | OpEndSession
  | OpClearToday bool
  | OpAutoLock

definition applyDayOp :: "(jsnum \<Rightarrow> string) \<Rightarrow> string \<Rightarrow> DayOp \<Rightarrow> App \<Rightarrow> App" where
  "applyDayOp numToString todayKey op app =
     (case op of
        OpAddTrade uuid nowIso \<Rightarrow> addTrade uuid nowIso app
      | OpEndSession \<Rightarrow> endSessionNow app
      | OpClearToday confirmed \<Rightarrow> clearToday confirmed todayKey app
      | OpAutoLock \<Rightarrow> autoLock numToString todayKey app)"

section \<open>Refresh pipeline\<close>

text \<open>
  An entry of the watch list \<open>COINS\<close> and a row of the market snapshot. Their fields
  \<open>symbol\<close>, \<open>cgId\<close>, \<open>name\<close> and \<open>id\<close> carry a prefix here. The watch list is an
  argument of the pipeline, so what is proved holds for the list of the source too.
\<close>

record Coin =
  coin_symbol :: string
  coin_cgId :: "string option"
  coin_name :: "string option"

text \<open>
  The two nullable fields are \<open>None\<close> whenever
  \<open>typeof ... === "number"\<close> fails.
\<close>

record CGRow =
  cg_id :: string
  cg_name :: string
  current_price :: jsnum
  price_change_percentage_24h :: "jsnum option"
  total_volume :: "jsnum option"

text \<open>
  What the three proxies answer during one refresh. \<open>markets\<close> is \<open>Inl\<close> of the
  error's message (if it has one) when the snapshot call throws. \<open>hourly\<close> gives the
  \<open>prices\<close> array of an asset id, \<open>candles1h\<close> the \<open>candles\<close> array of a symbol;
  \<open>None\<close> is a call that throws.
\<close>

record Upstream =
  markets :: "string option + CGRow list"
  hourly :: "string \<Rightarrow> (jsnum \<times> jsnum) list option"
  candles1h :: "string \<Rightarrow> Candle1h list option"

text \<open>\<open>s.toUpperCase()\<close> on the ASCII letters; other letters are not modelled.\<close>

definition upper_char :: "char \<Rightarrow> char" where
  "upper_char c =
     (if 97 \<le> (of_char c :: nat) \<and> (of_char c :: nat) \<le> 122 then char_of ((of_char c :: nat) - 32)
      else c)"

definition toUpperCase :: "string \<Rightarrow> string" where
  "toUpperCase s = map upper_char s"

text \<open>A number in a condition: 0 and NaN count as false.\<close>

definition truthy_num :: "jsnum \<Rightarrow> bool" where
  "truthy_num x = (x \<noteq> Fin 0 \<and> x \<noteq> NaN)"

definition fetchCoinGeckoHourly24h :: "Upstream \<Rightarrow> string \<Rightarrow> jsnum list option" where
  "fetchCoinGeckoHourly24h up coinId =
     map_option (\<lambda>ps. filter isFinite (map snd ps)) (hourly up coinId)"

definition fetchCoinbase1hCandles :: "Upstream \<Rightarrow> string \<Rightarrow> Candle1h list option" where
  "fetchCoinbase1hCandles up symb =
     (case candles1h up (toUpperCase symb) of
        None \<Rightarrow> None
      | Some cs \<Rightarrow> if cs = [] then None else Some cs)"

text \<open>The array \<open>merged\<close>; in \<open>byId\<close> a later row of the same id replaces an earlier one.\<close>

definition merged_rows :: "Coin list \<Rightarrow> CGRow list \<Rightarrow> MarketRow list" where
  "merged_rows coins rows =
     (let byId = map_of (rev (map (\<lambda>x. (cg_id x, x)) rows))
      in map (\<lambda>c.
           (let found = (case coin_cgId c of
                           None \<Rightarrow> None
                         | Some i \<Rightarrow> if i = [] then None else byId i)
            in \<lparr> MarketRow.symbol = toUpperCase (coin_symbol c),
                 cgId = coin_cgId c,
                 name = (case coin_name c of Some n \<Rightarrow> Some n | None \<Rightarrow> map_option cg_name found),
                 priceUsd = map_option current_price found,
                 change24h = Option.bind found price_change_percentage_24h,
                 volume24hUsd = Option.bind found total_volume \<rparr>)) coins)"

definition baselineVolTemp :: "MarketRow list \<Rightarrow> jsnum" where
  "baselineVolTemp merged =
     (let vols = js_sort (\<lambda>a b. jsub a b)
                   (filter (\<lambda>v. jgt v (Fin 0)) (map (\<lambda>m. nullish (volume24hUsd m) (Fin 0)) merged))
      in if vols \<noteq> [] then vols ! (length vols div 2) else Fin 1)"

record Ranked =
  rk_symbol :: string
  rk_cgId :: "string option"
  rk_combined :: jsnum

definition rankedTemp :: "MarketRow list \<Rightarrow> Ranked list" where
  "rankedTemp merged =
     take 10
       (js_sort (\<lambda>a b. jsub (rk_combined b) (rk_combined a))
          (filter (\<lambda>x. case rk_cgId x of None \<Rightarrow> False | Some i \<Rightarrow> i \<noteq> [])
             (map (\<lambda>m. \<lparr> rk_symbol = MarketRow.symbol m, rk_cgId = cgId m,
                         rk_combined = combinedScore (scoreSetup m (baselineVolTemp merged)) \<rparr>)
                merged)))"

text \<open>
  The entry-quality batch: \<open>Promise.all\<close> rejects as soon as one chart call throws, and
  the \<open>catch\<close> then keeps the previous map (\<open>None\<close> here). Otherwise the pairs are
  written into a fresh object in order, a later pair replacing an earlier one of the same
  symbol.
\<close>

definition microPairs :: "Upstream \<Rightarrow> Ranked list \<Rightarrow> (string \<times> MicroMetrics) list option" where
  "microPairs up ranked =
     those (map (\<lambda>x. map_option (\<lambda>prices. (rk_symbol x, computeMicro prices))
                       (fetchCoinGeckoHourly24h up (nullish (rk_cgId x) ''undefined''))) ranked)"

definition object_of_pairs :: "(string \<times> 'a) list \<Rightarrow> (string \<rightharpoonup> 'a)" where
  "object_of_pairs pairs = foldl (\<lambda>obj (k, v). obj(k \<mapsto> v)) Map.empty pairs"

definition missing_structure :: "string \<Rightarrow> StructureResult" where
  "missing_structure reason =
     \<lparr> ok = False, label = WAIT, reasons = [reason], support = None, resistance = None,
       roomTo2R = None, source = MISSING \<rparr>"

text \<open>The structure batch: every call catches its own failure.\<close>

definition structPairs :: "Upstream \<Rightarrow> MarketRow list \<Rightarrow> Ranked list \<Rightarrow> (string \<times> StructureResult) list" where
  "structPairs up merged ranked =
     map (\<lambda>x.
       (let p = Option.bind (find (\<lambda>mm. MarketRow.symbol mm = rk_symbol x) merged) priceUsd
        in case p of
             None \<Rightarrow> (rk_symbol x, missing_structure ''No price for structure calc.'')
           | Some pr \<Rightarrow>
               (if \<not> truthy_num pr \<or> \<not> isFinite pr then
                  (rk_symbol x, missing_structure ''No price for structure calc.'')
                else (case fetchCoinbase1hCandles up (rk_symbol x) of
                        Some candles \<Rightarrow>
                          (rk_symbol x, evaluateStructure pr (computePivotLevels1h candles))
                      | None \<Rightarrow>
                          (rk_symbol x,
                           missing_structure ''Structure unavailable (Binance pair missing).''))))) ranked"

text \<open>
  \<open>refresh\<close>, from the state at its start to the state when it has settled;
  \<open>nowMs\<close> is \<open>Date.now()\<close>. \<open>{ ...prev, ...next }\<close> is the map \<open>prev ++ next\<close>.
\<close>

definition refresh :: "Coin list \<Rightarrow> Upstream \<Rightarrow> jsnum \<Rightarrow> App \<Rightarrow> App" where
  "refresh coins up nowMs app =
     (case markets up of
        Inl msg \<Rightarrow>
          app \<lparr> error := Some (nullish msg ''Failed to fetch market data.''), isLoading := False \<rparr>
      | Inr rows \<Rightarrow>
          (let merged = merged_rows coins rows;
               picked = Option.bind (find (\<lambda>m. MarketRow.symbol m = focusSymbol app) merged) priceUsd;
               fill = (case picked of None \<Rightarrow> False | Some p \<Rightarrow> truthy_num p);
               ranked = rankedTemp merged;
               next = map_option object_of_pairs (microPairs up ranked);
               nextStruct = object_of_pairs (structPairs up merged ranked)
           in app \<lparr> error := None,
                    market := merged,
                    lastUpdated := Some nowMs,
                    entryPrice := (if fill \<and> entryPrice app = Fin 0 then nullish picked NaN
                                   else entryPrice app),
                    stopPrice := (if fill \<and> stopPrice app = Fin 0
                                  then jmul (nullish picked NaN) (Fin (985 / 1000))
                                  else stopPrice app),
                    microMap := (case next of
                                   None \<Rightarrow> microMap app
                                 | Some n \<Rightarrow> microMap app ++ n),
                    structMap := structMap app ++ nextStruct,
                    isLoading := False \<rparr>))"

section \<open>Predicates of the properties\<close>

text \<open>A score lies in the closed interval from 0 to 100.\<close>

definition score_in_range :: "jsnum \<Rightarrow> bool" where
  "score_in_range x = (jle (Fin 0) x \<and> jle x (Fin 100))"

text \<open>An optional number that is finite when it is present.\<close>

definition finite_or_absent :: "jsnum option \<Rightarrow> bool" where
  "finite_or_absent v = (case v of None \<Rightarrow> True | Some x \<Rightarrow> isFinite x)"

text \<open>\<open>Number.isInteger\<close>\<close>

fun is_integer :: "jsnum \<Rightarrow> bool" where
  "is_integer (Fin a) = (a = of_int \<lfloor>a\<rfloor>)"
| "is_integer NaN = False"
| "is_integer NInf = False"
| "is_integer PInf = False"

text \<open>The bounds that \<open>commitToday\<close> puts on a contract for the day \<open>todayKey\<close>.\<close>

definition normalized :: "string \<Rightarrow> CommitConfig \<Rightarrow> bool" where
  "normalized todayKey c =
     (CommitConfig.dayKey c = todayKey
      \<and> jle (Fin (1 / 10)) (CommitConfig.riskPct c) \<and> jle (CommitConfig.riskPct c) (Fin 5)
      \<and> is_integer (maxTrades c) \<and> jle (Fin 1) (maxTrades c)
      \<and> jle (Fin (1 / 2)) (maxDailyLossR c)
      \<and> is_integer (maxConsecutiveLosses c) \<and> jle (Fin 1) (maxConsecutiveLosses c))"

text \<open>
  The words of the structure claim, in the program's arithmetic. A zone is in target
  range when it lies above the price and at most 15 percent of the price above it; its
  room is its distance from the price in units of the risk.
\<close>

definition in_target_range :: "jsnum \<Rightarrow> PivotZone \<Rightarrow> bool" where
  "in_target_range lastPrice z =
     (jgt (price z) lastPrice
      \<and> jle (fsub (price z) lastPrice) (fmul lastPrice (fl64 (15 / 100))))"

definition room_of :: "jsnum \<Rightarrow> jsnum \<Rightarrow> PivotZone \<Rightarrow> jsnum" where
  "room_of lastPrice risk z = fdiv (fsub (price z) lastPrice) risk"

text \<open>
  \<open>c\<close> is the nearest zone in target range with a room of at least 2 or, when no zone
  in target range has such a room, the nearest zone in target range.
\<close>

definition nearest_target :: "jsnum \<Rightarrow> jsnum \<Rightarrow> PivotZone list \<Rightarrow> PivotZone \<Rightarrow> bool" where
  "nearest_target lastPrice risk zs c =
     (c \<in> set zs \<and> in_target_range lastPrice c \<and>
      (if \<exists>q \<in> set zs. in_target_range lastPrice q \<and> jge (room_of lastPrice risk q) (Fin 2)
       then jge (room_of lastPrice risk c) (Fin 2) \<and>
            (\<forall>q \<in> set zs. in_target_range lastPrice q \<and> jge (room_of lastPrice risk q) (Fin 2)
                \<longrightarrow> jle (price c) (price q))
       else (\<forall>q \<in> set zs. in_target_range lastPrice q \<longrightarrow> jle (price c) (price q))))"

text \<open>\<open>s0\<close> is a nearest support below the price.\<close>

definition nearest_support :: "jsnum \<Rightarrow> PivotZone list \<Rightarrow> PivotZone \<Rightarrow> bool" where
  "nearest_support lastPrice zs s0 =
     (s0 \<in> set zs \<and> jlt (price s0) lastPrice \<and>
      (\<forall>y \<in> set zs. jlt (price y) lastPrice \<longrightarrow> jle (price y) (price s0)))"

section \<open>States of the examples\<close>

text \<open>
  The state of the component at its first render on the day \<open>dk\<close> with an empty
  store: the initial value of every \<open>useState\<close>.
\<close>

definition initialApp :: "string \<Rightarrow> string \<Rightarrow> App" where
  "initialApp nowIso dk =
     \<lparr> overrideGuard = False, market = [], microMap = Map.empty, structMap = Map.empty,
       focusSymbol = ''SOL'', riskPct = Fin 2, entryPrice = Fin 0, stopPrice = Fin 0,
       logOpen = False, logSide = LONG, logEntry = Fin 0, logStop = Fin 0, logExit = Fin 0,
       logRulesFollowed = True, logNote = [], commit = None,
       dayState = \<lparr> dayKey = dk, locked = False, lockedReason = None, trades = [] \<rparr>,
       commitDraft = defaultCommit nowIso dk, isLoading = False, lastUpdated = None,
       error = None \<rparr>"

text \<open>
  A store that holds a contract and a day state of 30 April 2024, with the parser's
  answer for the two stored strings.
\<close>

definition exampleStore :: Storage where
  "exampleStore k =
     (if k = ''ob:commit'' then GetString ''c1''
      else if k = ''ob:daystate'' then GetString ''d1''
      else GetNull)"

definition exampleParse :: "string \<Rightarrow> json option" where
  "exampleParse s =
     (if s = ''c1'' then
        Some (JObj [(''dayKey'', JStr ''2024-04-30''), (''maxTrades'', JNum (Fin 2))])
      else if s = ''d1'' then
        Some (JObj [(''dayKey'', JStr ''2024-04-30''), (''locked'', JBool True), (''trades'', JArr [])])
      else None)"

text \<open>
  Zones around a price of 100.5: supports at 100 (two touches) and 98, resistances at
  106, 101 and 130; and the same supports with the resistance at 101 alone.
\<close>

definition exampleLevels :: Levels where
  "exampleLevels =
     \<lparr> supports = [\<lparr> price = Fin 98, strength = 1 \<rparr>, \<lparr> price = Fin 100, strength = 2 \<rparr>],
       resistances = [\<lparr> price = Fin 106, strength = 1 \<rparr>, \<lparr> price = Fin 101, strength = 3 \<rparr>,
                      \<lparr> price = Fin 130, strength = 1 \<rparr>] \<rparr>"

definition exampleLevelsNear :: Levels where
  "exampleLevelsNear =
     \<lparr> supports = [\<lparr> price = Fin 98, strength = 1 \<rparr>, \<lparr> price = Fin 100, strength = 2 \<rparr>],
       resistances = [\<lparr> price = Fin 101, strength = 3 \<rparr>] \<rparr>"

text \<open>
  Zones at the doubles nearest to 0.105 and 0.1265, for a price at the double nearest to
  0.11: the distance to the resistance and the 15 percent bound round to the same double.
\<close>

definition exampleLevelsBound :: Levels where
  "exampleLevelsBound =
     \<lparr> supports = [\<lparr> price = Fin (7566047373982433 / 2 ^ 56), strength = 2 \<rparr>],
       resistances = [\<lparr> price = Fin (2278821411449471 / 2 ^ 54), strength = 2 \<rparr>] \<rparr>"

text \<open>
  A day on which the operator commits, opens the log dialog during the Europe session,
  types a long trade (entry 100, stop 95, exit 110) and ends the session before saving.
\<close>

definition committedApp :: App where
  "committedApp = commitToday ''t1'' ''2024-05-01'' (initialApp ''t0'' ''2024-05-01'')"

definition dialogApp :: App where
  "dialogApp =
     (clickLogTrade ''2024-05-01'' (computeSession 17 0) committedApp)
       \<lparr> logEntry := Fin 100, logStop := Fin 95, logExit := Fin 110 \<rparr>"

definition lockedDialogApp :: App where
  "lockedDialogApp = endSessionNow dialogApp"

section \<open>Properties\<close>

subsection \<open>Rounding to binary64\<close>

lemma fl64_not_NaN: "fl64 x \<noteq> NaN"
  by (simp add: fl64_def)

lemma round_half_even_nonneg: "0 \<le> t \<Longrightarrow> 0 \<le> round_half_even t"
  by (auto simp: round_half_even_def Let_def)

lemma ulp_pos: "0 < ulp x"
  by (simp add: ulp_def)

lemma rounded_mag_nonneg: "0 \<le> rounded_mag x"
  using ulp_pos [of x] by (simp add: rounded_mag_def round_half_even_nonneg)

text \<open>Rounding keeps the sign, up to a zero.\<close>

lemma fl64_sign:
  "0 \<le> x \<Longrightarrow> jle (Fin 0) (fl64 x)" "x \<le> 0 \<Longrightarrow> jle (fl64 x) (Fin 0)"
  using rounded_mag_nonneg [of x]
  by (auto simp: fl64_def sgn_if)

lemma fl64_minus: "fl64 (- x) = jneg (fl64 x)"
  by (simp add: fl64_def rounded_mag_def ulp_def binade_def sgn_if)

lemma binade_eq:
  "x \<noteq> 0 \<Longrightarrow> 2 powr of_int e \<le> \<bar>x\<bar> \<Longrightarrow> \<bar>x\<bar> < 2 powr (of_int e + 1) \<Longrightarrow> - 1022 \<le> e
     \<Longrightarrow> binade x = e"
  using floor_log_eq_powr_iff [of "\<bar>x\<bar>" 2 e] by (simp add: binade_def)

text \<open>The rounding of a value whose binade \<open>e\<close> and rounded significand \<open>n\<close> are given.\<close>

lemma fl64_eval:
  assumes "x \<noteq> 0" "2 powr of_int e \<le> \<bar>x\<bar>" "\<bar>x\<bar> < 2 powr (of_int e + 1)" "- 1022 \<le> e"
      and "round_half_even (\<bar>x\<bar> / 2 powr of_int (e - 52)) = n"
      and "of_int n * 2 powr of_int (e - 52) = m" "m < 2 ^ 1024"
  shows "fl64 x = Fin (sgn x * m)"
proof -
  have "binade x = e" using assms(1-4) by (rule binade_eq)
  then have "rounded_mag x = m"
    using assms(5,6) by (simp add: rounded_mag_def ulp_def)
  then show ?thesis
    using assms(1,7) by (simp add: fl64_def)
qed

lemma fl64_overflow:
  assumes "0 < x" "2 powr of_int e \<le> \<bar>x\<bar>" "\<bar>x\<bar> < 2 powr (of_int e + 1)" "- 1022 \<le> e"
      and "round_half_even (\<bar>x\<bar> / 2 powr of_int (e - 52)) = n"
      and "of_int n * 2 powr of_int (e - 52) = m" "(2::real) ^ 1024 \<le> m"
  shows "fl64 x = PInf"
proof -
  have "binade x = e" using assms(1-4) by (intro binade_eq) simp_all
  then have "rounded_mag x = m"
    using assms(5,6) by (simp add: rounded_mag_def ulp_def)
  then show ?thesis
    using assms(1,7) by (simp add: fl64_def)
qed

text \<open>Every double is a multiple of \<open>2^(-1074)\<close>.\<close>

lemma double_grid:
  assumes "fl64 x = Fin x"
  shows "\<exists>k::int. x = of_int k * 2 powr (- 1074)"
proof (cases "x = 0")
  case True
  then show ?thesis by (intro exI [of _ 0]) simp
next
  case False
  with assms have x: "x = sgn x * rounded_mag x"
    by (simp add: fl64_def split: if_splits)
  define j where "j = nat (binade x + 1022)"
  have j: "of_int (binade x - 52) = real j + (- 1074)"
    by (simp add: j_def binade_def)
  have "(2::real) powr (real j + (- 1074)) = 2 powr real j * 2 powr (- 1074)"
    by (rule powr_add)
  moreover have "(2::real) powr real j = 2 ^ j"
    by (simp add: powr_realpow)
  ultimately have "ulp x = 2 ^ j * 2 powr (- 1074)"
    unfolding ulp_def j by simp
  then have "rounded_mag x
      = of_int (round_half_even (\<bar>x\<bar> / ulp x) * 2 ^ j) * 2 powr (- 1074)"
    by (simp add: rounded_mag_def)
  then have "x = of_int (sgn (if x < 0 then - 1 else 1)
                  * (round_half_even (\<bar>x\<bar> / ulp x) * 2 ^ j)) * 2 powr (- 1074)"
    using x False by (auto simp: sgn_if)
  then show ?thesis by blast
qed

lemma rounded_mag_pos:
  assumes "2 powr (- 1074) \<le> d"
  shows "0 < rounded_mag d"
proof -
  have dpos: "0 < d" using assms by (smt (verit) powr_gt_zero)
  have "ulp d \<le> d"
  proof (cases "\<lfloor>log 2 \<bar>d\<bar>\<rfloor> \<le> - 1022")
    case True
    then have "binade d = - 1022" by (simp add: binade_def)
    then show ?thesis using assms by (simp add: ulp_def)
  next
    case False
    then have b: "binade d = \<lfloor>log 2 d\<rfloor>" using dpos by (simp add: binade_def)
    have "2 powr of_int \<lfloor>log 2 d\<rfloor> \<le> d"
      using floor_log_eq_powr_iff [of d 2 "\<lfloor>log 2 d\<rfloor>"] dpos by simp
    moreover have "(2::real) powr of_int (\<lfloor>log 2 d\<rfloor> - 52) \<le> 2 powr of_int \<lfloor>log 2 d\<rfloor>"
      by (intro powr_mono) simp_all
    ultimately have "(2::real) powr of_int (\<lfloor>log 2 d\<rfloor> - 52) \<le> d"
      by (rule order_trans [rotated])
    then show ?thesis by (simp only: ulp_def b)
  qed
  then have "1 \<le> \<bar>d\<bar> / ulp d"
    using ulp_pos [of d] dpos by (simp add: le_divide_eq)
  then have "1 \<le> \<lfloor>\<bar>d\<bar> / ulp d\<rfloor>" by linarith
  then have "1 \<le> round_half_even (\<bar>d\<bar> / ulp d)"
    by (auto simp: round_half_even_def Let_def)
  then show ?thesis
    using ulp_pos [of d] by (simp add: rounded_mag_def)
qed

text \<open>The rounded difference of two doubles is positive when the exact one is.\<close>

lemma double_difference_positive:
  assumes "fl64 a = Fin a" "fl64 b = Fin b" "a < b"
  shows "jgt (fl64 (b - a)) (Fin 0)"
proof -
  obtain ka kb :: int where k: "a = of_int ka * 2 powr (- 1074)" "b = of_int kb * 2 powr (- 1074)"
    using double_grid assms(1,2) by blast
  have "of_int ka * 2 powr (- 1074) < of_int kb * (2 powr (- 1074) :: real)"
    using assms(3) k by simp
  then have "ka < kb" by (simp add: mult_less_cancel_right)
  then have "1 \<le> kb - ka" by simp
  then have "(1::real) \<le> of_int (kb - ka)" by linarith
  then have "2 powr (- 1074) \<le> of_int (kb - ka) * (2 powr (- 1074) :: real)"
    by (simp add: le_divide_eq [symmetric])
  also have "\<dots> = b - a" using k by (simp add: algebra_simps)
  finally have "0 < rounded_mag (b - a)" by (rule rounded_mag_pos)
  then show ?thesis
    using assms(3) by (simp add: fl64_def jgt_def)
qed

lemma fsub_Fin: "fsub (Fin a) (Fin b) = fl64 (a - b)"
  by (simp add: fsub_def jsub_def)

lemma fmul_Fin: "fmul (Fin a) (Fin b) = fl64 (a * b)"
  by (simp add: fmul_def)

lemma fdiv_Fin: "b \<noteq> 0 \<Longrightarrow> fdiv (Fin a) (Fin b) = fl64 (a / b)"
  by (simp add: fdiv_def)

text \<open>
  For doubles the rounded difference has the sign of the exact one, which is what the
  comparators of the two sorts rely on.
\<close>

lemma comparator_sign:
  assumes "is_double a" "is_double b"
  shows "jgt (fsub a b) (Fin 0) = jgt (jsub a b) (Fin 0)"
proof (cases a)
  case (Fin x)
  show ?thesis
  proof (cases b)
    case (Fin y)
    show ?thesis
    proof (cases "y < x")
      case True
      then show ?thesis
        using double_difference_positive [of y x] assms \<open>a = Fin x\<close> \<open>b = Fin y\<close>
        by (simp add: fsub_Fin jsub_def jgt_def)
    next
      case False
      then have "jle (fl64 (x - y)) (Fin 0)"
        by (intro fl64_sign) simp
      then have "\<not> jlt (Fin 0) (fl64 (x - y))"
        by (cases "fl64 (x - y)") simp_all
      then show ?thesis
        using False \<open>a = Fin x\<close> \<open>b = Fin y\<close> by (simp add: fsub_Fin jsub_def jgt_def)
    qed
  qed (simp_all add: \<open>a = Fin x\<close> fsub_def jsub_def)
qed (cases b; simp add: fsub_def jsub_def)+

text \<open>Some doubles and roundings that the examples below use.\<close>

lemma fl64_0: "fl64 0 = Fin 0"
  by (simp add: fl64_def)

lemma fl64_1: "fl64 1 = Fin 1"
  using fl64_eval [where x = 1 and e = 0 and n = "2 ^ 52" and m = 1]
  by (simp add: powr_neg_numeral round_half_even_def Let_def)

lemma fl64_2: "fl64 2 = Fin 2"
  using fl64_eval [where x = 2 and e = 1 and n = "2 ^ 52" and m = 2]
  by (simp add: powr_neg_numeral round_half_even_def Let_def)

lemma fl64_5: "fl64 5 = Fin 5"
  using fl64_eval [where x = 5 and e = 2 and n = "5 * 2 ^ 50" and m = 5]
  by (simp add: powr_neg_numeral round_half_even_def Let_def)

lemma fl64_10: "fl64 10 = Fin 10"
  using fl64_eval [where x = 10 and e = 3 and n = "10 * 2 ^ 49" and m = 10]
  by (simp add: powr_neg_numeral round_half_even_def Let_def)

lemma fl64_minus_2: "fl64 (- 2) = Fin (- 2)"
  using fl64_minus [of 2] by (simp add: fl64_2)

lemma fl64_minus_10: "fl64 (- 10) = Fin (- 10)"
  using fl64_minus [of 10] by (simp add: fl64_10)

lemma fl64_11: "fl64 11 = Fin 11"
  using fl64_eval [where x = 11 and e = 3 and n = "11 * 2 ^ 49" and m = 11]
  by (simp add: powr_neg_numeral round_half_even_def Let_def)

lemma fl64_half: "fl64 (1 / 2) = Fin (1 / 2)"
  using fl64_eval [where x = "1 / 2" and e = "- 1" and n = "2 ^ 52" and m = "1 / 2"]
  by (simp add: powr_neg_numeral round_half_even_def Let_def)

lemma fl64_11_2: "fl64 (11 / 2) = Fin (11 / 2)"
  using fl64_eval [where x = "11 / 2" and e = 2 and n = "11 * 2 ^ 49" and m = "11 / 2"]
  by (simp add: powr_neg_numeral round_half_even_def Let_def)

lemma fl64_59_2: "fl64 (59 / 2) = Fin (59 / 2)"
  using fl64_eval [where x = "59 / 2" and e = 4 and n = "59 * 2 ^ 47" and m = "59 / 2"]
  by (simp add: powr_neg_numeral round_half_even_def Let_def)

text \<open>The literal \<open>0.15\<close>, and \<open>100.5 * 0.15\<close>.\<close>

lemma fl64_015: "fl64 (15 / 100) = Fin (5404319552844595 / 2 ^ 55)"
  using fl64_eval [where x = "15 / 100" and e = "- 3" and n = 5404319552844595
                     and m = "5404319552844595 / 2 ^ 55"]
  by (simp add: powr_neg_numeral round_half_even_def Let_def)

lemma fl64_bound_at_100_5:
  "fl64 (201 / 2 * (5404319552844595 / 2 ^ 55)) = Fin (4243235273913139 / 2 ^ 48)"
  using fl64_eval [where x = "201 / 2 * (5404319552844595 / 2 ^ 55)" and e = 3
                     and n = 8486470547826278 and m = "4243235273913139 / 2 ^ 48"]
  by (simp add: powr_neg_numeral round_half_even_def Let_def)

subsection \<open>R multiple\<close>

lemma not_jle_zero: "(\<not> jle (fl64 d) (Fin 0)) = jgt (fl64 d) (Fin 0)"
  using fl64_not_NaN [of d] by (cases "fl64 d") (auto simp: jgt_def)

lemma computeR_Fin:
  "computeR sd (Fin e) (Fin s) (Fin x) =
     (case sd of
        LONG \<Rightarrow> if jgt (fsub (Fin e) (Fin s)) (Fin 0)
                then fdiv (fsub (Fin x) (Fin e)) (fsub (Fin e) (Fin s)) else NaN
      | SHORT \<Rightarrow> if jgt (fsub (Fin s) (Fin e)) (Fin 0)
                 then fdiv (fsub (Fin e) (Fin x)) (fsub (Fin s) (Fin e)) else NaN)"
  by (cases sd) (simp_all add: computeR_def Let_def fsub_Fin not_jle_zero [symmetric])

lemma computeR_nonfinite:
  "\<not> (isFinite a \<and> isFinite b \<and> isFinite c) \<Longrightarrow> computeR sd a b c = NaN"
  by (auto simp: computeR_def)

lemma computeR_no_risk:
  "\<not> 0 < e - s \<Longrightarrow> computeR LONG (Fin e) (Fin s) (Fin x) = NaN"
  "\<not> 0 < s - e \<Longrightarrow> computeR SHORT (Fin e) (Fin s) (Fin x) = NaN"
  using fl64_sign(2) [of "e - s"] fl64_sign(2) [of "s - e"]
  by (simp_all add: computeR_def Let_def fsub_Fin)

lemma computeR_doubles:
  "fl64 e = Fin e \<Longrightarrow> fl64 s = Fin s \<Longrightarrow> 0 < e - s \<Longrightarrow>
     computeR LONG (Fin e) (Fin s) (Fin x) = fdiv (fsub (Fin x) (Fin e)) (fsub (Fin e) (Fin s))"
  "fl64 e = Fin e \<Longrightarrow> fl64 s = Fin s \<Longrightarrow> 0 < s - e \<Longrightarrow>
     computeR SHORT (Fin e) (Fin s) (Fin x) = fdiv (fsub (Fin e) (Fin x)) (fsub (Fin s) (Fin e))"
  using double_difference_positive [of s e] double_difference_positive [of e s]
  by (simp_all add: computeR_Fin fsub_Fin)

lemma computeR_exact:
  "0 < e - s \<Longrightarrow> fl64 (e - s) = Fin (e - s) \<Longrightarrow> fl64 (x - e) = Fin (x - e) \<Longrightarrow>
     fl64 ((x - e) / (e - s)) = Fin ((x - e) / (e - s)) \<Longrightarrow>
     computeR LONG (Fin e) (Fin s) (Fin x) = Fin ((x - e) / (e - s))"
  "0 < s - e \<Longrightarrow> fl64 (s - e) = Fin (s - e) \<Longrightarrow> fl64 (e - x) = Fin (e - x) \<Longrightarrow>
     fl64 ((e - x) / (s - e)) = Fin ((e - x) / (s - e)) \<Longrightarrow>
     computeR SHORT (Fin e) (Fin s) (Fin x) = Fin ((e - x) / (s - e))"
  by (simp_all add: computeR_Fin fsub_Fin fdiv_Fin jgt_def)

text \<open>The four examples of the specification, and one more long trade.\<close>

lemma computeR_examples:
  "computeR LONG (Fin 100) (Fin 95) (Fin 110) = Fin 2"
  "computeR LONG (Fin 100) (Fin 95) (Fin 90) = Fin (- 2)"
  "computeR SHORT (Fin 100) (Fin 105) (Fin 90) = Fin 2"
  "computeR LONG (Fin 100) (Fin 100) (Fin 110) = NaN"
  "computeR LONG (Fin 10) (Fin 5) (Fin 20) = Fin 2"
  "computeR SHORT (Fin 5) (Fin 10) (Fin (- 5)) = Fin 2"
  by (simp_all add: computeR_Fin fsub_Fin fdiv_Fin fl64_0 fl64_5 fl64_10 fl64_2
        fl64_minus_10 fl64_minus_2 jgt_def)

text \<open>
  A risk that overflows: with the entry at \<open>2 ^ 1023\<close> and the stop at its negative the
  difference rounds to \<open>Infinity\<close>, which passes the test of the risk, and the quotient
  is zero.
\<close>

lemma fl64_2_1023: "fl64 (2 ^ 1023) = Fin (2 ^ 1023)"
  using fl64_eval [where x = "2 ^ 1023" and e = 1023 and n = "2 ^ 52" and m = "2 ^ 1023"]
  by (simp add: round_half_even_def Let_def)

lemma fl64_2_1024: "fl64 (2 ^ 1023 + 2 ^ 1023) = PInf"
  using fl64_overflow [where x = "2 ^ 1023 + 2 ^ 1023" and e = 1024 and n = "2 ^ 52"
                         and m = "2 ^ 1024"]
  by (simp add: round_half_even_def Let_def)

lemma computeR_overflow:
  "fsub (Fin (2 ^ 1023)) (Fin (- (2 ^ 1023))) = PInf"
  "computeR LONG (Fin (2 ^ 1023)) (Fin (- (2 ^ 1023))) (Fin 0) = Fin 0"
  using fl64_minus [of "2 ^ 1023"] fl64_2_1023 fl64_2_1024
  by (simp_all add: computeR_Fin fsub_Fin fdiv_def jgt_def fl64_0)

text \<open>
  Claim C3, in the arithmetic of the program. For finite entry \<open>e\<close>, stop \<open>s\<close> and
  exit \<open>x\<close> that are doubles, \<open>computeR\<close> of a long trade with \<open>e - s > 0\<close> is the
  quotient \<open>(x - e) / (e - s)\<close> of the two rounded differences, rounded; of a short trade
  with \<open>s - e > 0\<close> it is \<open>(e - x) / (s - e)\<close> likewise. Where the two differences and
  the quotient need no rounding, the result is the exact quotient; where they do, or
  overflow, it is what binary64 makes of the formula. A risk that is not positive, or an
  input that is not finite, gives NaN (never a zero). The four examples of
  the specification: long 100, 95, 110 gives 2; long 100, 95, 90 gives -2; short 100, 105,
  90 gives 2; long 100, 100, 110 is NaN.
\<close>

theorem computeR_spec:
  "(fl64 e = Fin e \<and> fl64 s = Fin s \<and> 0 < e - s \<longrightarrow>
      computeR LONG (Fin e) (Fin s) (Fin x) = fdiv (fsub (Fin x) (Fin e)) (fsub (Fin e) (Fin s)))
   \<and> (fl64 e = Fin e \<and> fl64 s = Fin s \<and> 0 < s - e \<longrightarrow>
      computeR SHORT (Fin e) (Fin s) (Fin x) = fdiv (fsub (Fin e) (Fin x)) (fsub (Fin s) (Fin e)))
   \<and> (0 < e - s \<and> fl64 (e - s) = Fin (e - s) \<and> fl64 (x - e) = Fin (x - e)
        \<and> fl64 ((x - e) / (e - s)) = Fin ((x - e) / (e - s)) \<longrightarrow>
      computeR LONG (Fin e) (Fin s) (Fin x) = Fin ((x - e) / (e - s)))
   \<and> (0 < s - e \<and> fl64 (s - e) = Fin (s - e) \<and> fl64 (e - x) = Fin (e - x)
        \<and> fl64 ((e - x) / (s - e)) = Fin ((e - x) / (s - e)) \<longrightarrow>
      computeR SHORT (Fin e) (Fin s) (Fin x) = Fin ((e - x) / (s - e)))
   \<and> (\<not> 0 < e - s \<longrightarrow> computeR LONG (Fin e) (Fin s) (Fin x) = NaN)
   \<and> (\<not> 0 < s - e \<longrightarrow> computeR SHORT (Fin e) (Fin s) (Fin x) = NaN)
   \<and> (\<not> (isFinite a \<and> isFinite b \<and> isFinite c) \<longrightarrow> computeR sd a b c = NaN)
   \<and> computeR LONG (Fin 100) (Fin 95) (Fin 110) = Fin 2
   \<and> computeR LONG (Fin 100) (Fin 95) (Fin 90) = Fin (- 2)
   \<and> computeR SHORT (Fin 100) (Fin 105) (Fin 90) = Fin 2
   \<and> computeR LONG (Fin 100) (Fin 100) (Fin 110) = NaN"
  using computeR_nonfinite [of a b c sd]
        computeR_doubles [where e = e and s = s and x = x]
        computeR_exact [where e = e and s = s and x = x]
        computeR_no_risk [where e = e and s = s and x = x] computeR_examples(1-4)
  by blast

text \<open>
  A long trade 10, 5, 20 and a short trade 5, 10, -5 on doubles whose differences and
  quotient are doubles; the same numbers with the side swapped have no positive risk; an
  infinite entry; and the long trade whose risk overflows.
\<close>

theorem computeR_spec_witness:
  "computeR LONG (Fin 10) (Fin 5) (Fin 20) = Fin 2
   \<and> computeR LONG (Fin 10) (Fin 5) (Fin 20) = fdiv (fsub (Fin 20) (Fin 10)) (fsub (Fin 10) (Fin 5))
   \<and> computeR SHORT (Fin 10) (Fin 5) (Fin 20) = NaN
   \<and> computeR SHORT (Fin 5) (Fin 10) (Fin (- 5)) = Fin 2
   \<and> computeR SHORT (Fin 5) (Fin 10) (Fin (- 5))
        = fdiv (fsub (Fin 5) (Fin (- 5))) (fsub (Fin 10) (Fin 5))
   \<and> computeR LONG (Fin 5) (Fin 10) (Fin (- 5)) = NaN
   \<and> computeR SHORT PInf (Fin 1) (Fin 2) = NaN
   \<and> computeR LONG (Fin (2 ^ 1023)) (Fin (- (2 ^ 1023))) (Fin 0)
        = fdiv (fsub (Fin 0) (Fin (2 ^ 1023))) PInf
   \<and> computeR LONG (Fin (2 ^ 1023)) (Fin (- (2 ^ 1023))) (Fin 0) = Fin 0"
  using computeR_spec [where e = 10 and s = 5 and x = 20 and a = PInf and b = "Fin 1"
                         and c = "Fin 2" and sd = SHORT]
        computeR_spec [where e = 5 and s = 10 and x = "- 5" and a = PInf and b = "Fin 1"
                         and c = "Fin 2" and sd = SHORT]
        computeR_spec [where e = "2 ^ 1023" and s = "- (2 ^ 1023)" and x = 0 and a = PInf
                         and b = "Fin 1" and c = "Fin 2" and sd = SHORT]
        fl64_5 fl64_10 fl64_2 fl64_minus [of "2 ^ 1023"] fl64_2_1023 fl64_2_1024
  by (simp add: fsub_Fin fdiv_def fl64_0)

subsection \<open>Activity scorer\<close>

lemma clamp_Fin: "clamp (Fin x) (Fin 0) (Fin 100) = Fin (max 0 (min 100 x))"
  by (simp add: clamp_def max_def min_def)

lemma score_in_range_clamp: "score_in_range (clamp (Fin x) (Fin 0) (Fin 100))"
  by (simp add: score_in_range_def clamp_Fin)

lemma volFactor_of_finite: "\<exists>f. volFactor_of (Fin v) b = Fin f"
  by (cases b) (auto simp: volFactor_of_def jgt_def inf_of_sign_def)

lemma changeScore_clamp: "changeScore (Fin c) = clamp (Fin (50 + c * 4)) (Fin 0) (Fin 100)"
  by (simp add: changeScore_def)

lemma volScore_clamp:
  "volScore (Fin f) = clamp (Fin (50 + log 10 (max 1 f) * 25)) (Fin 0) (Fin 100)"
  by (simp add: volScore_def max_def)

lemma nullish_finite: "finite_or_absent v \<Longrightarrow> \<exists>x. nullish v (Fin 0) = Fin x"
  by (cases v) (auto simp: finite_or_absent_def nullish_def elim: isFinite.elims)

text \<open>
  Claim C6. For a row whose 24h change and 24h volume are finite where present (an
  absent one counts as 0) and for every baseline volume, NaN and the infinities
  included, the five scores of \<open>scoreSetup\<close> lie between 0 and 100: the change score,
  the volume score, the 15 minute score, the 1 hour score and the combined score.
\<close>

theorem scoreSetup_scores_in_range:
  assumes ch: "finite_or_absent (change24h row)"
      and vol: "finite_or_absent (volume24hUsd row)"
  shows "score_in_range (changeScore (nullish (change24h row) (Fin 0)))
       \<and> score_in_range (volScore (volFactor_of (nullish (volume24hUsd row) (Fin 0)) baselineVol))
       \<and> score_in_range (score15m (scoreSetup row baselineVol))
       \<and> score_in_range (score1h (scoreSetup row baselineVol))
       \<and> score_in_range (combinedScore (scoreSetup row baselineVol))"
proof -
  obtain c where c: "nullish (change24h row) (Fin 0) = Fin c"
    using nullish_finite [OF ch] by blast
  obtain v where v: "nullish (volume24hUsd row) (Fin 0) = Fin v"
    using nullish_finite [OF vol] by blast
  obtain f where f: "volFactor_of (Fin v) baselineVol = Fin f"
    using volFactor_of_finite by blast
  obtain cs where cs: "changeScore (Fin c) = Fin cs"
    by (simp add: changeScore_clamp clamp_Fin)
  obtain vs where vs: "volScore (Fin f) = Fin vs"
    by (simp add: volScore_clamp clamp_Fin)
  have e15: "score15m (scoreSetup row baselineVol)
               = clamp (Fin (cs * (55 / 100) + vs * (45 / 100) + 4)) (Fin 0) (Fin 100)"
    by (simp add: scoreSetup_def Let_def c v f cs vs)
  have e1h: "score1h (scoreSetup row baselineVol)
               = clamp (Fin (cs * (65 / 100) + vs * (35 / 100))) (Fin 0) (Fin 100)"
    by (simp add: scoreSetup_def Let_def c v f cs vs)
  obtain a15 where a15:
    "clamp (Fin (cs * (55 / 100) + vs * (45 / 100) + 4)) (Fin 0) (Fin 100) = Fin a15"
    by (simp add: clamp_Fin)
  obtain a1h where a1h:
    "clamp (Fin (cs * (65 / 100) + vs * (35 / 100))) (Fin 0) (Fin 100) = Fin a1h"
    by (simp add: clamp_Fin)
  have ec: "combinedScore (scoreSetup row baselineVol)
              = clamp (Fin (a15 * (48 / 100) + a1h * (52 / 100))) (Fin 0) (Fin 100)"
    using a15 a1h by (simp add: scoreSetup_def Let_def c v f cs vs)
  have "score_in_range (changeScore (Fin c))"
    by (simp only: changeScore_clamp score_in_range_clamp)
  moreover have "score_in_range (volScore (Fin f))"
    by (simp only: volScore_clamp score_in_range_clamp)
  moreover have "score_in_range (score15m (scoreSetup row baselineVol))"
    by (simp only: e15 score_in_range_clamp)
  moreover have "score_in_range (score1h (scoreSetup row baselineVol))"
    by (simp only: e1h score_in_range_clamp)
  moreover have "score_in_range (combinedScore (scoreSetup row baselineVol))"
    by (simp only: ec score_in_range_clamp)
  ultimately show ?thesis
    by (simp only: c v f simp_thms)
qed

theorem scoreSetup_scores_in_range_witness:
  "score_in_range (changeScore (Fin (- 40)))
   \<and> score_in_range (volScore (volFactor_of (Fin 0) NaN))
   \<and> score_in_range (score15m (scoreSetup
        \<lparr> MarketRow.symbol = ''BTC'', cgId = Some ''bitcoin'', name = None,
          priceUsd = Some (Fin 100), change24h = Some (Fin (- 40)), volume24hUsd = None \<rparr> NaN))
   \<and> score_in_range (score1h (scoreSetup
        \<lparr> MarketRow.symbol = ''BTC'', cgId = Some ''bitcoin'', name = None,
          priceUsd = Some (Fin 100), change24h = Some (Fin (- 40)), volume24hUsd = None \<rparr> NaN))
   \<and> score_in_range (combinedScore (scoreSetup
        \<lparr> MarketRow.symbol = ''BTC'', cgId = Some ''bitcoin'', name = None,
          priceUsd = Some (Fin 100), change24h = Some (Fin (- 40)), volume24hUsd = None \<rparr> NaN))"
  using scoreSetup_scores_in_range [of
        "\<lparr> MarketRow.symbol = ''BTC'', cgId = Some ''bitcoin'', name = None,
          priceUsd = Some (Fin 100), change24h = Some (Fin (- 40)), volume24hUsd = None \<rparr>" NaN]
  by (simp add: finite_or_absent_def nullish_def)

subsection \<open>Entry-quality classifier\<close>

lemma computeMicro_entryQuality:
  "MicroMetrics.entryQuality (computeMicro ps) =
     (if jle (ret1h (computeMicro ps)) (Fin (- 3)) then NO_EDGE
      else if jle (dropFromHigh6h (computeMicro ps)) (Fin (- 4)) then EXTENDED
      else if jge (spikeFromLow6h (computeMicro ps)) (Fin 6) then EXTENDED
      else VALID)"
  by (simp add: computeMicro_def Let_def)

lemma computeMicro_whyNot_VALID:
  "MicroMetrics.entryQuality (computeMicro ps) = VALID \<Longrightarrow> whyNot (computeMicro ps) = []"
  by (simp add: computeMicro_def Let_def split: if_splits)

lemma computeMicro_ret1h: "ret1h (computeMicro (ps @ [x, y])) = pct y x"
proof -
  have i1: "nat (1 + int (length ps)) = Suc (length ps)" by simp
  have "js_index (ps @ [x, y]) (int (length (ps @ [x, y])) - 1) = Some y"
    by (simp add: js_index_def nth_append i1)
  moreover have "js_index (ps @ [x, y]) (max 0 (int (length (ps @ [x, y])) - 2)) = Some x"
    by (simp add: js_index_def nth_append)
  ultimately show ?thesis
    by (simp add: computeMicro_def Let_def nullish_def del: length_append)
qed

lemma pct_Fin: "a \<noteq> 0 \<Longrightarrow> pct (Fin b) (Fin a) = Fin ((b - a) / a * 100)"
  by (simp add: pct_def jsub_def)

text \<open>
  Claim C4. For every price series the entry quality that \<open>computeMicro\<close> returns
  follows its rules in order, the first match winning: a 1 hour return of at most -3 gives
  \<open>NO_EDGE\<close> whatever the other metrics are; otherwise a drop from the 6 hour high of at
  most -4 gives \<open>EXTENDED\<close>; otherwise a spike from the 6 hour low of at least 6 gives
  \<open>EXTENDED\<close>; otherwise \<open>VALID\<close>. In particular a series whose 1 hour return is -3.5
  is \<open>NO_EDGE\<close>, also when the pullback and the spike rule hold as well; and so is
  every series whose last step, from a price \<open>a\<close> other than 0 to \<open>b\<close>, is a change of
  at most -3 percent, whatever the samples before it.
\<close>

theorem computeMicro_priority:
  "MicroMetrics.entryQuality (computeMicro ps) =
     (if jle (ret1h (computeMicro ps)) (Fin (- 3)) then NO_EDGE
      else if jle (dropFromHigh6h (computeMicro ps)) (Fin (- 4)) then EXTENDED
      else if jge (spikeFromLow6h (computeMicro ps)) (Fin 6) then EXTENDED
      else VALID)
   \<and> (ret1h (computeMicro ps) = Fin (- (35 / 10))
        \<longrightarrow> MicroMetrics.entryQuality (computeMicro ps) = NO_EDGE)
   \<and> (a \<noteq> 0 \<and> (b - a) / a * 100 \<le> - 3
        \<longrightarrow> MicroMetrics.entryQuality (computeMicro (qs @ [Fin a, Fin b])) = NO_EDGE)"
proof -
  have "MicroMetrics.entryQuality (computeMicro ps) = NO_EDGE"
    if "ret1h (computeMicro ps) = Fin (- (35 / 10))"
    using that by (simp add: computeMicro_entryQuality)
  moreover have "MicroMetrics.entryQuality (computeMicro (qs @ [Fin a, Fin b])) = NO_EDGE"
    if "a \<noteq> 0" "(b - a) / a * 100 \<le> - 3"
    using that by (simp add: computeMicro_entryQuality computeMicro_ret1h pct_Fin)
  ultimately show ?thesis
    using computeMicro_entryQuality [of ps] by blast
qed

text \<open>
  The series 90, 110, 100, 96.5 ends in a step of -3.5 percent, lies 12 percent under its
  high and 7 percent over its low: all three rules hold and the first one wins.
\<close>

theorem computeMicro_priority_witness:
  "ret1h (computeMicro [Fin 90, Fin 110, Fin 100, Fin (965 / 10)]) = Fin (- (35 / 10))
   \<and> jle (dropFromHigh6h (computeMicro [Fin 90, Fin 110, Fin 100, Fin (965 / 10)])) (Fin (- 4))
   \<and> jge (spikeFromLow6h (computeMicro [Fin 90, Fin 110, Fin 100, Fin (965 / 10)])) (Fin 6)
   \<and> MicroMetrics.entryQuality (computeMicro [Fin 90, Fin 110, Fin 100, Fin (965 / 10)]) = NO_EDGE
   \<and> MicroMetrics.entryQuality (computeMicro ([Fin 90, Fin 110] @ [Fin 100, Fin (965 / 10)]))
        = NO_EDGE"
  using computeMicro_priority [where ps = "[Fin 90, Fin 110, Fin 100, Fin (965 / 10)]"
          and qs = "[Fin 90, Fin 110]" and a = 100 and b = "965 / 10"]
  by (simp add: computeMicro_def Let_def js_index_def nullish_def pct_def jsub_def
        jmax_list_def jmin_list_def jge_def)

lemma pct_zero_reference:
  "pct (Fin b) (Fin 0) = (if b = 0 then NaN else if 0 < b then PInf else NInf)"
  by (simp add: pct_def jsub_def inf_of_sign_def)

text \<open>
  Claim C7, as stated, fails for its second example. A reference price of zero under a
  last price that is not zero gives percentages that are infinite, not NaN, and an infinite
  percentage is compared like any number: on the series 0, 5 the 1 hour return and the
  spike from the low are \<open>+Infinity\<close>, the spike rule matches, and the result is
  \<open>EXTENDED\<close> with two reasons.
\<close>

theorem computeMicro_zero_reference:
  "ret1h (computeMicro [Fin 0, Fin 5]) = PInf
   \<and> dropFromHigh6h (computeMicro [Fin 0, Fin 5]) = Fin 0
   \<and> spikeFromLow6h (computeMicro [Fin 0, Fin 5]) = PInf
   \<and> MicroMetrics.entryQuality (computeMicro [Fin 0, Fin 5]) = EXTENDED
   \<and> whyNot (computeMicro [Fin 0, Fin 5])
        = [''Extended: +Infinity% from 6h low'',
           ''Don'' @ rsquo @ ''t chase. Wait for pullback + retest.'']"
  by (simp add: computeMicro_def Let_def js_index_def nullish_def pct_def jsub_def
        jmax_list_def jmin_list_def jge_def inf_of_sign_def)

text \<open>
  Claim C7, amended. When the percentages that \<open>computeMicro\<close> derives from the samples
  (the 1 hour return, the drop from the 6 hour high, the spike from the 6 hour low) are NaN,
  no rule matches: the result is \<open>VALID\<close> with an empty list of reasons. A NaN 1 hour
  return alone already rules out \<open>NO_EDGE\<close>. A reference price of zero gives a NaN 1
  hour return only under a last price of zero; under a positive last price the return is
  \<open>+Infinity\<close>, under a negative one \<open>-Infinity\<close>. The empty series and the series of a
  single zero price are two inputs with NaN percentages.
\<close>

theorem computeMicro_nan:
  "(ret1h (computeMicro ps) = NaN \<longrightarrow> MicroMetrics.entryQuality (computeMicro ps) \<noteq> NO_EDGE)
   \<and> (ret1h (computeMicro ps) = NaN \<and> dropFromHigh6h (computeMicro ps) = NaN
        \<and> spikeFromLow6h (computeMicro ps) = NaN
      \<longrightarrow> MicroMetrics.entryQuality (computeMicro ps) = VALID \<and> whyNot (computeMicro ps) = [])
   \<and> ret1h (computeMicro (qs @ [Fin 0, Fin b]))
        = (if b = 0 then NaN else if 0 < b then PInf else NInf)"
proof -
  have a: "MicroMetrics.entryQuality (computeMicro ps) \<noteq> NO_EDGE"
    if "ret1h (computeMicro ps) = NaN"
    using that by (simp add: computeMicro_entryQuality)
  have b: "MicroMetrics.entryQuality (computeMicro ps) = VALID"
    if "ret1h (computeMicro ps) = NaN" "dropFromHigh6h (computeMicro ps) = NaN"
       "spikeFromLow6h (computeMicro ps) = NaN"
    using that by (simp add: computeMicro_entryQuality jge_def)
  have c: "ret1h (computeMicro (qs @ [Fin 0, Fin b]))
             = (if b = 0 then NaN else if 0 < b then PInf else NInf)"
    by (simp only: computeMicro_ret1h pct_zero_reference)
  show ?thesis
    using a b c computeMicro_whyNot_VALID [of ps] by blast
qed

theorem computeMicro_nan_witness:
  "ret1h (computeMicro []) = NaN \<and> dropFromHigh6h (computeMicro []) = NaN
   \<and> spikeFromLow6h (computeMicro []) = NaN
   \<and> MicroMetrics.entryQuality (computeMicro []) = VALID \<and> whyNot (computeMicro []) = []
   \<and> ret1h (computeMicro [Fin 0]) = NaN \<and> dropFromHigh6h (computeMicro [Fin 0]) = NaN
   \<and> spikeFromLow6h (computeMicro [Fin 0]) = NaN
   \<and> MicroMetrics.entryQuality (computeMicro [Fin 0]) = VALID \<and> whyNot (computeMicro [Fin 0]) = []
   \<and> ret1h (computeMicro [Fin 0, Fin 0]) = NaN
   \<and> MicroMetrics.entryQuality (computeMicro [Fin 0, Fin 0]) = VALID
   \<and> ret1h (computeMicro [Fin 7, Fin 0, Fin (- 5)]) = NInf"
  using computeMicro_nan [of "[]" "[]" 0] computeMicro_nan [of "[Fin 0]" "[Fin 7]" "- 5"]
        computeMicro_nan [of "[Fin 0, Fin 0]" "[]" 0]
  by (simp add: computeMicro_def Let_def js_index_def nullish_def pct_def jsub_def
        jmax_list_def jmin_list_def jge_def inf_of_sign_def)

subsection \<open>Structure engine\<close>

lemma jlt_not_nan: "jlt a b \<Longrightarrow> a \<noteq> NaN \<and> b \<noteq> NaN"
  by (cases a; cases b; simp)

lemma jsub_pos_iff: "a \<noteq> NaN \<Longrightarrow> b \<noteq> NaN \<Longrightarrow> jgt (jsub b a) (Fin 0) = jlt a b"
  by (cases a; cases b; simp add: jgt_def jsub_def)

lemma jlt_imp_jle: "jlt a b \<Longrightarrow> jle a b"
  by (cases a; cases b; simp)

lemma not_jlt_imp_jle: "a \<noteq> NaN \<Longrightarrow> b \<noteq> NaN \<Longrightarrow> \<not> jlt a b \<Longrightarrow> jle b a"
  by (cases a; cases b; simp)

lemma jle_trans: "jle a b \<Longrightarrow> jle b c \<Longrightarrow> jle a c"
  by (cases a; cases b; cases c; simp)

lemma jle_refl: "a \<noteq> NaN \<Longrightarrow> jle a a"
  by (cases a; simp)

text \<open>Between doubles the risk, a rounded difference, is positive.\<close>

lemma risk_positive: "is_double a \<Longrightarrow> is_double b \<Longrightarrow> jlt a b \<Longrightarrow> jgt (fsub b a) (Fin 0)"
  using jlt_not_nan [of a b] by (simp add: comparator_sign jsub_pos_iff)

text \<open>The sort keeps the elements and, for a comparator that agrees with an order, sorts.\<close>

lemma set_insort_cmp: "set (insort_cmp cmp x ys) = insert x (set ys)"
  by (induction ys) auto

lemma set_js_sort: "set (js_sort cmp xs) = set xs"
  by (induction xs) (auto simp: js_sort_def set_insort_cmp)

lemma sorted_insort_cmp:
  assumes gt: "\<And>a b. a \<in> S \<Longrightarrow> b \<in> S \<Longrightarrow> jgt (cmp a b) (Fin 0) \<Longrightarrow> le b a"
      and ngt: "\<And>a b. a \<in> S \<Longrightarrow> b \<in> S \<Longrightarrow> \<not> jgt (cmp a b) (Fin 0) \<Longrightarrow> le a b"
      and trans: "\<And>a b c. le a b \<Longrightarrow> le b c \<Longrightarrow> le a c"
  shows "sorted_wrt le ys \<Longrightarrow> x \<in> S \<Longrightarrow> set ys \<subseteq> S \<Longrightarrow> sorted_wrt le (insort_cmp cmp x ys)"
proof (induction ys)
  case Nil
  then show ?case by simp
next
  case (Cons y ys)
  show ?case
  proof (cases "jgt (cmp x y) (Fin 0)")
    case True
    have "le y x" using gt [of x y] True Cons.prems by simp
    moreover have "sorted_wrt le (insort_cmp cmp x ys)"
      using Cons by simp
    ultimately show ?thesis
      using True Cons.prems by (auto simp: set_insort_cmp)
  next
    case False
    have xy: "le x y" using ngt [of x y] False Cons.prems by simp
    then have "\<forall>z \<in> set ys. le x z"
      using Cons.prems trans by auto
    then show ?thesis
      using False xy Cons.prems by simp
  qed
qed

lemma sorted_js_sort:
  assumes gt: "\<And>a b. a \<in> S \<Longrightarrow> b \<in> S \<Longrightarrow> jgt (cmp a b) (Fin 0) \<Longrightarrow> le b a"
      and ngt: "\<And>a b. a \<in> S \<Longrightarrow> b \<in> S \<Longrightarrow> \<not> jgt (cmp a b) (Fin 0) \<Longrightarrow> le a b"
      and trans: "\<And>a b c. le a b \<Longrightarrow> le b c \<Longrightarrow> le a c"
  shows "set xs \<subseteq> S \<Longrightarrow> sorted_wrt le (js_sort cmp xs)"
proof (induction xs)
  case Nil
  then show ?case by (simp add: js_sort_def)
next
  case (Cons x xs)
  have "sorted_wrt le (insort_cmp cmp x (js_sort cmp xs))"
  proof (rule sorted_insort_cmp [where S = S])
    show "le b a" if "a \<in> S" "b \<in> S" "jgt (cmp a b) (Fin 0)" for a b
      using that by (rule gt)
    show "le a b" if "a \<in> S" "b \<in> S" "\<not> jgt (cmp a b) (Fin 0)" for a b
      using that by (rule ngt)
    show "le a c" if "le a b" "le b c" for a b c
      using that by (rule trans)
    show "sorted_wrt le (js_sort cmp xs)" "x \<in> S" "set (js_sort cmp xs) \<subseteq> S"
      using Cons by (simp_all add: set_js_sort)
  qed
  then show ?case by (simp add: js_sort_def)
qed

lemma sorted_supportsBelow:
  assumes "\<forall>q \<in> set (supports levels). is_double (price q)"
  shows "sorted_wrt (\<lambda>a b. jle (price b) (price a)) (supportsBelow lastPrice levels)"
  unfolding supportsBelow_def
proof (rule sorted_js_sort [where S = "{z. price z \<noteq> NaN \<and> is_double (price z)}"])
  fix a b :: PivotZone
  assume "a \<in> {z. price z \<noteq> NaN \<and> is_double (price z)}"
         "b \<in> {z. price z \<noteq> NaN \<and> is_double (price z)}"
  then have n: "price a \<noteq> NaN" "price b \<noteq> NaN"
    and d: "jgt (fsub (price b) (price a)) (Fin 0) = jgt (jsub (price b) (price a)) (Fin 0)"
    by (simp_all add: comparator_sign)
  show "jgt (fsub (price b) (price a)) (Fin 0) \<Longrightarrow> jle (price a) (price b)"
    using n by (simp add: d jsub_pos_iff jlt_imp_jle)
  show "\<not> jgt (fsub (price b) (price a)) (Fin 0) \<Longrightarrow> jle (price b) (price a)"
    using n by (simp add: d jsub_pos_iff not_jlt_imp_jle)
next
  fix a b c :: PivotZone
  show "jle (price b) (price a) \<Longrightarrow> jle (price c) (price b) \<Longrightarrow> jle (price c) (price a)"
    using jle_trans by blast
next
  show "set (filter (\<lambda>x. jlt (price x) lastPrice) (supports levels))
          \<subseteq> {z. price z \<noteq> NaN \<and> is_double (price z)}"
    using jlt_not_nan assms by auto
qed

lemma sorted_resistAbove:
  assumes "\<forall>q \<in> set (resistances levels). is_double (price q)"
  shows "sorted_wrt (\<lambda>a b. jle (price a) (price b)) (resistAbove lastPrice levels)"
  unfolding resistAbove_def
proof (rule sorted_js_sort [where S = "{z. price z \<noteq> NaN \<and> is_double (price z)}"])
  fix a b :: PivotZone
  assume "a \<in> {z. price z \<noteq> NaN \<and> is_double (price z)}"
         "b \<in> {z. price z \<noteq> NaN \<and> is_double (price z)}"
  then have n: "price a \<noteq> NaN" "price b \<noteq> NaN"
    and d: "jgt (fsub (price a) (price b)) (Fin 0) = jgt (jsub (price a) (price b)) (Fin 0)"
    by (simp_all add: comparator_sign)
  show "jgt (fsub (price a) (price b)) (Fin 0) \<Longrightarrow> jle (price b) (price a)"
    using n by (simp add: d jsub_pos_iff jlt_imp_jle)
  show "\<not> jgt (fsub (price a) (price b)) (Fin 0) \<Longrightarrow> jle (price a) (price b)"
    using n by (simp add: d jsub_pos_iff not_jlt_imp_jle)
next
  fix a b c :: PivotZone
  show "jle (price a) (price b) \<Longrightarrow> jle (price b) (price c) \<Longrightarrow> jle (price a) (price c)"
    using jle_trans by blast
next
  show "set (filter (\<lambda>x. jgt (price x) lastPrice) (resistances levels))
          \<subseteq> {z. price z \<noteq> NaN \<and> is_double (price z)}"
    using jlt_not_nan assms by (auto simp: jgt_def)
qed

lemma set_supportsBelow:
  "set (supportsBelow lastPrice levels) = {y \<in> set (supports levels). jlt (price y) lastPrice}"
  by (simp add: supportsBelow_def set_js_sort)

lemma supportsBelow_head:
  assumes "supportsBelow lastPrice levels = s0 # rest"
      and dbl: "\<forall>q \<in> set (supports levels). is_double (price q)"
  shows "nearest_support lastPrice (supports levels) s0"
proof -
  have mem: "s0 \<in> set (supportsBelow lastPrice levels)"
    using assms by simp
  then have s0: "s0 \<in> set (supports levels)" "jlt (price s0) lastPrice"
    by (simp_all add: set_supportsBelow)
  have "jle (price y) (price s0)" if "y \<in> set (supports levels)" "jlt (price y) lastPrice" for y
  proof -
    have "y \<in> set (s0 # rest)"
      using that assms(1) set_supportsBelow [of lastPrice levels] by auto
    moreover have "jle (price s0) (price s0)"
      using s0(2) jlt_not_nan jle_refl by blast
    moreover have "\<forall>y \<in> set rest. jle (price y) (price s0)"
      using sorted_supportsBelow [OF dbl, of lastPrice] assms(1) by simp
    ultimately show ?thesis by auto
  qed
  then show ?thesis
    using s0 by (simp add: nearest_support_def)
qed

lemma set_candidates:
  "set (candidates lastPrice levels) = {q \<in> set (resistances levels). in_target_range lastPrice q}"
  by (auto simp: candidates_def resistAbove_def set_js_sort in_target_range_def Let_def)

lemma sorted_candidates:
  assumes "\<forall>q \<in> set (resistances levels). is_double (price q)"
  shows "sorted_wrt (\<lambda>a b. jle (price a) (price b)) (candidates lastPrice levels)"
  using sorted_resistAbove [OF assms, of lastPrice]
  by (simp add: candidates_def Let_def sorted_wrt_filter)

lemma candidates_not_nan: "q \<in> set (candidates lastPrice levels) \<Longrightarrow> price q \<noteq> NaN"
  using jlt_not_nan by (auto simp: set_candidates in_target_range_def jgt_def)

lemma find_first_sorted:
  "sorted_wrt le xs \<Longrightarrow> \<forall>x \<in> set xs. le x x \<Longrightarrow> find P xs = Some c \<Longrightarrow>
     c \<in> set xs \<and> P c \<and> (\<forall>q \<in> set xs. P q \<longrightarrow> le c q)"
  by (induction xs) (auto split: if_splits)

lemma head_sorted:
  "sorted_wrt le xs \<Longrightarrow> \<forall>x \<in> set xs. le x x \<Longrightarrow> js_index xs 0 = Some c \<Longrightarrow>
     c \<in> set xs \<and> (\<forall>q \<in> set xs. le c q)"
  by (cases xs) (auto simp: js_index_def)

lemma chosen_None_iff:
  "chosen lastPrice risk levels = None \<longleftrightarrow> candidates lastPrice levels = []"
  by (cases "candidates lastPrice levels") (auto simp: chosen_def js_index_def split: option.splits)

lemma chosen_Some:
  assumes "chosen lastPrice risk levels = Some c"
      and dbl: "\<forall>q \<in> set (resistances levels). is_double (price q)"
  shows "nearest_target lastPrice risk (resistances levels) c"
proof -
  let ?cs = "candidates lastPrice levels"
  let ?P = "\<lambda>q. jge (fdiv (fsub (price q) lastPrice) risk) (Fin 2)"
  have refl: "\<forall>x \<in> set ?cs. jle (price x) (price x)"
    using candidates_not_nan jle_refl by blast
  have sorted: "sorted_wrt (\<lambda>a b. jle (price a) (price b)) ?cs"
    using dbl by (rule sorted_candidates)
  show ?thesis
  proof (cases "find ?P ?cs")
    case None
    then have none: "\<forall>q \<in> set ?cs. \<not> ?P q"
      by (simp add: find_None_iff)
    from None assms(1) have "js_index ?cs 0 = Some c"
      by (simp add: chosen_def)
    then have "c \<in> set ?cs \<and> (\<forall>q \<in> set ?cs. jle (price c) (price q))"
      using head_sorted [OF sorted refl] by blast
    with none show ?thesis
      by (auto simp: nearest_target_def set_candidates room_of_def)
  next
    case (Some c')
    with assms(1) have "find ?P ?cs = Some c"
      by (simp add: chosen_def)
    then have "c \<in> set ?cs \<and> ?P c \<and> (\<forall>q \<in> set ?cs. ?P q \<longrightarrow> jle (price c) (price q))"
      using find_first_sorted [OF sorted refl] by blast
    then show ?thesis
      by (auto simp: nearest_target_def set_candidates room_of_def)
  qed
qed

text \<open>
  The rounded values of the examples: the prices are doubles; at the doubles nearest to
  0.11, 0.105 and 0.1265 the distance to the resistance and the 15 percent bound round to
  the same double.
\<close>

lemma example_doubles:
  "is_double (Fin 98)" "is_double (Fin 100)" "is_double (Fin 101)" "is_double (Fin 106)"
  "is_double (Fin 130)" "is_double (Fin (201 / 2))"
  using fl64_eval [where x = 98 and e = 6 and n = "98 * 2 ^ 46" and m = 98]
        fl64_eval [where x = 100 and e = 6 and n = "100 * 2 ^ 46" and m = 100]
        fl64_eval [where x = 101 and e = 6 and n = "101 * 2 ^ 46" and m = 101]
        fl64_eval [where x = 106 and e = 6 and n = "106 * 2 ^ 46" and m = 106]
        fl64_eval [where x = 130 and e = 7 and n = "130 * 2 ^ 45" and m = 130]
        fl64_eval [where x = "201 / 2" and e = 6 and n = "201 * 2 ^ 45" and m = "201 / 2"]
  by (simp_all add: powr_neg_numeral round_half_even_def Let_def)

lemma bound_doubles:
  "is_double (Fin (7926335344172073 / 2 ^ 56))"
  "is_double (Fin (7566047373982433 / 2 ^ 56))"
  "is_double (Fin (2278821411449471 / 2 ^ 54))"
  using fl64_eval [where x = "7926335344172073 / 2 ^ 56" and e = "- 4"
                     and n = 7926335344172073 and m = "7926335344172073 / 2 ^ 56"]
        fl64_eval [where x = "7566047373982433 / 2 ^ 56" and e = "- 4"
                     and n = 7566047373982433 and m = "7566047373982433 / 2 ^ 56"]
        fl64_eval [where x = "2278821411449471 / 2 ^ 54" and e = "- 3"
                     and n = 4557642822898942 and m = "2278821411449471 / 2 ^ 54"]
  by (simp_all add: powr_neg_numeral round_half_even_def Let_def)

lemma bound_risk:
  "fsub (Fin (7926335344172073 / 2 ^ 56)) (Fin (7566047373982433 / 2 ^ 56))
     = Fin (45035996273705 / 2 ^ 53)"
  using fl64_eval [where x = "7926335344172073 / 2 ^ 56 - 7566047373982433 / 2 ^ 56"
                     and e = "- 8" and n = 5764607523034240 and m = "45035996273705 / 2 ^ 53"]
  by (simp add: fsub_Fin powr_neg_numeral round_half_even_def Let_def)

lemma bound_distance:
  "fsub (Fin (2278821411449471 / 2 ^ 54)) (Fin (7926335344172073 / 2 ^ 56))
     = Fin (1188950301625811 / 2 ^ 56)"
  using fl64_eval [where x = "2278821411449471 / 2 ^ 54 - 7926335344172073 / 2 ^ 56"
                     and e = "- 6" and n = 4755801206503244 and m = "1188950301625811 / 2 ^ 56"]
  by (simp add: fsub_Fin powr_neg_numeral round_half_even_def Let_def)

lemma bound_limit:
  "fmul (Fin (7926335344172073 / 2 ^ 56)) (fl64 (15 / 100)) = Fin (1188950301625811 / 2 ^ 56)"
  unfolding fl64_015 fmul_Fin
  using fl64_eval [where x = "7926335344172073 / 2 ^ 56 * (5404319552844595 / 2 ^ 55)"
                     and e = "- 6" and n = 4755801206503244 and m = "1188950301625811 / 2 ^ 56"]
  by (simp add: powr_neg_numeral round_half_even_def Let_def)

lemma bound_room:
  "fdiv (Fin (1188950301625811 / 2 ^ 56)) (Fin (45035996273705 / 2 ^ 53))
     = Fin (232216855786291 / 2 ^ 46)"
  using fl64_eval [where x = "1188950301625811 / 2 ^ 56 / (45035996273705 / 2 ^ 53)"
                     and e = 1 and n = 7430939385161312 and m = "232216855786291 / 2 ^ 46"]
  by (simp add: fdiv_Fin powr_neg_numeral round_half_even_def Let_def)

text \<open>
  Claim C5, in the arithmetic of the program. Let the price and the prices of the zones be
  doubles, and let the zone set have a support strictly below the price. Then
  \<open>evaluateStructure\<close> takes a nearest such support \<open>s0\<close>; the risk, the price minus that
  support, is positive. If no resistance lies in target range (above the price, and its
  distance at most the 15 percent bound, both as the program rounds them) the label is
  \<open>WAIT\<close>. Otherwise the target \<open>c\<close> is the nearest resistance in target range with a
  room of at least 2 or, when there is none, the nearest resistance in target range; the
  result carries its price and its room, the rounded quotient of the distance and the
  risk. A room below 2 gives the label \<open>NO_EDGE\<close> and one reason, which holds the room
  printed with two decimals. A room that is not below 2, so every room of at least 2,
  gives the label \<open>OK\<close>; a touch count below 2 on \<open>s0\<close> or on \<open>c\<close> adds the
  weak-levels warning and leaves the label as it is.
\<close>

theorem evaluateStructure_target:
  assumes "is_double lastPrice"
      and "\<forall>q \<in> set (supports levels). is_double (price q)"
      and "\<forall>q \<in> set (resistances levels). is_double (price q)"
      and "z \<in> set (supports levels)" and "jlt (price z) lastPrice"
  shows "\<exists>s0. nearest_support lastPrice (supports levels) s0
           \<and> support (evaluateStructure lastPrice levels) = Some (price s0)
           \<and> jgt (fsub lastPrice (price s0)) (Fin 0)
           \<and> ((\<forall>q \<in> set (resistances levels). \<not> in_target_range lastPrice q)
                  \<longrightarrow> label (evaluateStructure lastPrice levels) = WAIT)
           \<and> ((\<exists>q \<in> set (resistances levels). in_target_range lastPrice q) \<longrightarrow>
               (\<exists>c. nearest_target lastPrice (fsub lastPrice (price s0)) (resistances levels) c
                  \<and> resistance (evaluateStructure lastPrice levels) = Some (price c)
                  \<and> roomTo2R (evaluateStructure lastPrice levels)
                      = Some (room_of lastPrice (fsub lastPrice (price s0)) c)
                  \<and> (jlt (room_of lastPrice (fsub lastPrice (price s0)) c) (Fin 2) \<longrightarrow>
                        label (evaluateStructure lastPrice levels) = STRUCT_NO_EDGE
                        \<and> \<not> ok (evaluateStructure lastPrice levels)
                        \<and> reasons (evaluateStructure lastPrice levels)
                            = [''Room-to-2R fails: only ''
                               @ toFixed2 (room_of lastPrice (fsub lastPrice (price s0)) c)
                               @ ''R available.''])
                  \<and> (\<not> jlt (room_of lastPrice (fsub lastPrice (price s0)) c) (Fin 2) \<longrightarrow>
                        label (evaluateStructure lastPrice levels) = OK
                        \<and> ok (evaluateStructure lastPrice levels)
                        \<and> reasons (evaluateStructure lastPrice levels)
                            = (if strength s0 < 2 \<or> strength c < 2
                               then [weak_levels_msg] else []))
                  \<and> (jge (room_of lastPrice (fsub lastPrice (price s0)) c) (Fin 2) \<longrightarrow>
                        label (evaluateStructure lastPrice levels) = OK)))"
proof -
  obtain s0 rest where sb: "supportsBelow lastPrice levels = s0 # rest"
    using assms(4,5) set_supportsBelow [of lastPrice levels]
    by (cases "supportsBelow lastPrice levels") auto
  have ns: "nearest_support lastPrice (supports levels) s0"
    using sb assms(2) by (rule supportsBelow_head)
  let ?risk = "fsub lastPrice (price s0)"
  let ?res = "evaluateStructure lastPrice levels"
  have rp: "jgt ?risk (Fin 0)"
    using ns assms(1,2) risk_positive by (simp add: nearest_support_def)
  have sup: "support ?res = Some (price s0)"
    using sb by (simp add: evaluateStructure_def Let_def split: option.splits)
  have main:
    "((\<forall>q \<in> set (resistances levels). \<not> in_target_range lastPrice q) \<longrightarrow> label ?res = WAIT)
     \<and> ((\<exists>q \<in> set (resistances levels). in_target_range lastPrice q) \<longrightarrow>
         (\<exists>c. nearest_target lastPrice ?risk (resistances levels) c
            \<and> resistance ?res = Some (price c)
            \<and> roomTo2R ?res = Some (room_of lastPrice ?risk c)
            \<and> (jlt (room_of lastPrice ?risk c) (Fin 2) \<longrightarrow>
                  label ?res = STRUCT_NO_EDGE \<and> \<not> ok ?res
                  \<and> reasons ?res = [''Room-to-2R fails: only ''
                                     @ toFixed2 (room_of lastPrice ?risk c) @ ''R available.''])
            \<and> (\<not> jlt (room_of lastPrice ?risk c) (Fin 2) \<longrightarrow>
                  label ?res = OK \<and> ok ?res
                  \<and> reasons ?res = (if strength s0 < 2 \<or> strength c < 2
                                     then [weak_levels_msg] else []))
            \<and> (jge (room_of lastPrice ?risk c) (Fin 2) \<longrightarrow> label ?res = OK)))"
  proof (cases "chosen lastPrice ?risk levels")
    case None
    then have "candidates lastPrice levels = []"
      by (simp add: chosen_None_iff)
    then have none: "\<forall>q \<in> set (resistances levels). \<not> in_target_range lastPrice q"
      using set_candidates [of lastPrice levels] by auto
    have "label ?res = WAIT"
      using sb rp None by (simp add: evaluateStructure_def Let_def)
    with none show ?thesis by blast
  next
    case (Some c)
    have nt: "nearest_target lastPrice ?risk (resistances levels) c"
      using Some assms(3) by (rule chosen_Some)
    then have inr: "c \<in> set (resistances levels)" "in_target_range lastPrice c"
      by (simp_all add: nearest_target_def)
    let ?room = "room_of lastPrice ?risk c"
    have ge: "\<not> jlt ?room (Fin 2)" if "jge ?room (Fin 2)"
      using that by (cases ?room) (simp_all add: jge_def)
    have res: "resistance ?res = Some (price c)" "roomTo2R ?res = Some ?room"
      using sb rp Some by (simp_all add: evaluateStructure_def Let_def room_of_def)
    have lt: "label ?res = STRUCT_NO_EDGE \<and> \<not> ok ?res
              \<and> reasons ?res = [''Room-to-2R fails: only '' @ toFixed2 ?room @ ''R available.'']"
      if "jlt ?room (Fin 2)"
      using sb rp Some that
      by (simp add: evaluateStructure_def Let_def room_of_def room_fails_msg_def)
    have okc: "label ?res = OK \<and> ok ?res
              \<and> reasons ?res = (if strength s0 < 2 \<or> strength c < 2 then [weak_levels_msg] else [])"
      if "\<not> jlt ?room (Fin 2)"
      using sb rp Some that
      by (simp add: evaluateStructure_def Let_def room_of_def)
    show ?thesis
      using nt res lt okc ge inr by blast
  qed
  show ?thesis
    using ns sup rp main by blast
qed

text \<open>
  At a price of 100.5 the nearest support is 100 and the risk 0.5. With resistances at
  106, 101 and 130 the target is 106 (101 is nearer but gives a room of 1, 130 is out of
  range): room 11, label \<open>OK\<close>, with the warning for the single touch of 106. With the
  resistance at 101 alone the room is 1 and the label \<open>NO_EDGE\<close>. At the double nearest
  to 0.11, with the support at 0.105 and the resistance at 0.1265, the resistance lies on
  the bound and is kept: label \<open>OK\<close>, with a room of 3.299999999999997.
\<close>

theorem evaluateStructure_target_witness:
  "label (evaluateStructure (Fin (201 / 2)) exampleLevels) = OK
   \<and> ok (evaluateStructure (Fin (201 / 2)) exampleLevels)
   \<and> support (evaluateStructure (Fin (201 / 2)) exampleLevels) = Some (Fin 100)
   \<and> resistance (evaluateStructure (Fin (201 / 2)) exampleLevels) = Some (Fin 106)
   \<and> roomTo2R (evaluateStructure (Fin (201 / 2)) exampleLevels) = Some (Fin 11)
   \<and> reasons (evaluateStructure (Fin (201 / 2)) exampleLevels) = [weak_levels_msg]
   \<and> label (evaluateStructure (Fin (201 / 2)) exampleLevelsNear) = STRUCT_NO_EDGE
   \<and> resistance (evaluateStructure (Fin (201 / 2)) exampleLevelsNear) = Some (Fin 101)
   \<and> reasons (evaluateStructure (Fin (201 / 2)) exampleLevelsNear)
        = [''Room-to-2R fails: only 1.00R available.'']
   \<and> label (evaluateStructure (Fin (7926335344172073 / 2 ^ 56)) exampleLevelsBound) = OK
   \<and> roomTo2R (evaluateStructure (Fin (7926335344172073 / 2 ^ 56)) exampleLevelsBound)
        = Some (Fin (232216855786291 / 2 ^ 46))
   \<and> reasons (evaluateStructure (Fin (7926335344172073 / 2 ^ 56)) exampleLevelsBound) = []"
proof -
  let ?p = "Fin (201 / 2)"
  let ?z = "\<lparr> price = Fin 100, strength = 2 \<rparr>"
  have d: "is_double ?p"
          "\<forall>q \<in> set (supports exampleLevels). is_double (price q)"
          "\<forall>q \<in> set (resistances exampleLevels). is_double (price q)"
          "\<forall>q \<in> set (supports exampleLevelsNear). is_double (price q)"
          "\<forall>q \<in> set (resistances exampleLevelsNear). is_double (price q)"
    using example_doubles by (simp_all add: exampleLevels_def exampleLevelsNear_def)
  have a: "?z \<in> set (supports exampleLevels)" "?z \<in> set (supports exampleLevelsNear)"
    by (simp_all add: exampleLevels_def exampleLevelsNear_def)
  have b: "jlt (price ?z) ?p" by simp
  have bound: "fmul ?p (fl64 (15 / 100)) = Fin (4243235273913139 / 2 ^ 48)"
    by (simp only: fl64_015 fmul_Fin fl64_bound_at_100_5)
  have bound': "fmul ?p (fl64 (3 / 20)) = Fin (4243235273913139 / 2 ^ 48)"
    using bound by simp
  have risk: "fsub ?p (Fin 100) = Fin (1 / 2)"
    by (simp add: fsub_Fin fl64_half)
  have dist: "fsub (Fin 106) ?p = Fin (11 / 2)" "fsub (Fin 101) ?p = Fin (1 / 2)"
             "fsub (Fin 130) ?p = Fin (59 / 2)"
    by (simp_all add: fsub_Fin fl64_11_2 fl64_half fl64_59_2)
  have range: "in_target_range ?p \<lparr> price = Fin 106, strength = k \<rparr>"
              "in_target_range ?p \<lparr> price = Fin 101, strength = k \<rparr>"
              "\<not> in_target_range ?p \<lparr> price = Fin 130, strength = k \<rparr>" for k
    by (simp_all add: in_target_range_def jgt_def dist bound')
  have room: "room_of ?p (Fin (1 / 2)) \<lparr> price = Fin 106, strength = k \<rparr> = Fin 11"
             "room_of ?p (Fin (1 / 2)) \<lparr> price = Fin 101, strength = k \<rparr> = Fin 1" for k
    by (simp_all add: room_of_def dist fdiv_Fin fl64_11 fl64_1)
  have inr: "\<exists>q \<in> set (resistances exampleLevels). in_target_range ?p q"
            "\<exists>q \<in> set (resistances exampleLevelsNear). in_target_range ?p q"
    by (simp_all add: exampleLevels_def exampleLevelsNear_def range)
  have s0: "s0 = ?z"
    if "nearest_support ?p (supports exampleLevels) s0
        \<or> nearest_support ?p (supports exampleLevelsNear) s0" for s0
    using that by (auto simp: nearest_support_def exampleLevels_def exampleLevelsNear_def)
  have c: "c = \<lparr> price = Fin 106, strength = 1 \<rparr>"
    if "nearest_target ?p (Fin (1 / 2)) (resistances exampleLevels) c" for c
    using that
    by (auto simp: nearest_target_def exampleLevels_def range room jge_def split: if_splits)
  have c': "c = \<lparr> price = Fin 101, strength = 3 \<rparr>"
    if "nearest_target ?p (Fin (1 / 2)) (resistances exampleLevelsNear) c" for c
    using that by (simp add: nearest_target_def exampleLevelsNear_def)
  have one:
    "label (evaluateStructure ?p exampleLevels) = OK
     \<and> ok (evaluateStructure ?p exampleLevels)
     \<and> support (evaluateStructure ?p exampleLevels) = Some (Fin 100)
     \<and> resistance (evaluateStructure ?p exampleLevels) = Some (Fin 106)
     \<and> roomTo2R (evaluateStructure ?p exampleLevels) = Some (Fin 11)
     \<and> reasons (evaluateStructure ?p exampleLevels) = [weak_levels_msg]"
    using evaluateStructure_target [OF d(1) d(2) d(3) a(1) b] inr(1)
    apply (elim exE conjE)
    subgoal for s0
      apply (frule disjI1 [THEN s0])
      apply (simp add: risk jgt_def del: ex_simps bex_simps)
      apply (elim exE conjE)
      subgoal for c
        apply (frule c)
        apply (simp add: room jge_def)
        done
      done
    done
  have two:
    "label (evaluateStructure ?p exampleLevelsNear) = STRUCT_NO_EDGE
     \<and> resistance (evaluateStructure ?p exampleLevelsNear) = Some (Fin 101)
     \<and> reasons (evaluateStructure ?p exampleLevelsNear)
          = [''Room-to-2R fails: only 1.00R available.'']"
    using evaluateStructure_target [OF d(1) d(4) d(5) a(2) b] inr(2)
    apply (elim exE conjE)
    subgoal for s0
      apply (frule disjI2 [THEN s0])
      apply (simp add: risk jgt_def del: ex_simps bex_simps)
      apply (elim exE conjE)
      subgoal for c
        apply (frule c')
        apply (simp add: room jge_def digits.simps digit_char_def)
        done
      done
    done
  let ?P = "Fin (7926335344172073 / 2 ^ 56)"
  let ?S = "\<lparr> price = Fin (7566047373982433 / 2 ^ 56), strength = 2 \<rparr>"
  let ?R = "\<lparr> price = Fin (2278821411449471 / 2 ^ 54), strength = 2 \<rparr>"
  have D: "is_double ?P"
          "\<forall>q \<in> set (supports exampleLevelsBound). is_double (price q)"
          "\<forall>q \<in> set (resistances exampleLevelsBound). is_double (price q)"
    using bound_doubles by (simp_all add: exampleLevelsBound_def)
  have A: "?S \<in> set (supports exampleLevelsBound)"
    by (simp add: exampleLevelsBound_def)
  have B: "jlt (price ?S) ?P" by simp
  have inR: "in_target_range ?P ?R"
    unfolding in_target_range_def PivotZone.simps bound_distance bound_limit
    by (simp add: jgt_def)
  have INR: "\<exists>q \<in> set (resistances exampleLevelsBound). in_target_range ?P q"
    using inR by (simp add: exampleLevelsBound_def)
  have S0: "s0 = ?S" if "nearest_support ?P (supports exampleLevelsBound) s0" for s0
    using that by (simp add: nearest_support_def exampleLevelsBound_def)
  have C: "c = ?R" if "nearest_target ?P x (resistances exampleLevelsBound) c" for c x
    using that by (simp add: nearest_target_def exampleLevelsBound_def)
  have ROOM: "room_of ?P (fsub ?P (price ?S)) ?R = Fin (232216855786291 / 2 ^ 46)"
    unfolding room_of_def PivotZone.simps bound_distance bound_risk bound_room ..
  have three:
    "label (evaluateStructure ?P exampleLevelsBound) = OK
     \<and> roomTo2R (evaluateStructure ?P exampleLevelsBound) = Some (Fin (232216855786291 / 2 ^ 46))
     \<and> reasons (evaluateStructure ?P exampleLevelsBound) = []"
    using evaluateStructure_target [OF D(1) D(2) D(3) A B] INR
    apply (elim exE conjE)
    subgoal for s0
      apply (frule S0)
      apply (simp only: simp_thms)
      apply (elim exE conjE)
      subgoal for c
        apply (frule C)
        apply (simp only: ROOM)
        apply simp
        done
      done
    done
  show ?thesis
    using one two three by simp
qed

subsection \<open>Session guard\<close>

text \<open>
  Claim C2. When no commitment for today exists or the day is locked, the global
  trading-allowed predicate and the per-asset action-allowed predicate are both false,
  whatever the override toggle is set to. When a commitment for today exists and the day
  is not locked, the override alone makes both true: it passes the session-quality block,
  the allowed-sessions block and the per-asset entry-quality and structure blocks, and
  nothing else.
\<close>

theorem guard_override_scope:
  "(commitRequired todayKey app \<or> locked (dayState app)
      \<longrightarrow> \<not> tradingAllowed todayKey si (app \<lparr> overrideGuard := ov \<rparr>)
          \<and> \<not> coinActionAllowed todayKey si (app \<lparr> overrideGuard := ov \<rparr>) s)
   \<and> (\<not> commitRequired todayKey app \<and> \<not> locked (dayState app)
      \<longrightarrow> tradingAllowed todayKey si (app \<lparr> overrideGuard := True \<rparr>)
          \<and> coinActionAllowed todayKey si (app \<lparr> overrideGuard := True \<rparr>) s)"
  by (simp add: tradingAllowed_def coinActionAllowed_def commitRequired_def Let_def)

text \<open>
  Before the commitment the override opens nothing, in the Europe session and for a
  coin that passes both per-asset tests. After it, the override opens the off-peak
  session for a coin that fails both.
\<close>

theorem guard_override_scope_witness:
  "commitRequired ''2024-05-01'' (initialApp ''t0'' ''2024-05-01'')
   \<and> \<not> tradingAllowed ''2024-05-01'' (computeSession 17 0)
         ((initialApp ''t0'' ''2024-05-01'') \<lparr> overrideGuard := True \<rparr>)
   \<and> \<not> coinActionAllowed ''2024-05-01'' (computeSession 17 0)
         ((initialApp ''t0'' ''2024-05-01'') \<lparr> overrideGuard := True \<rparr>)
         \<lparr> entryQuality = VALID, structureLabel = OK \<rparr>
   \<and> \<not> commitRequired ''2024-05-01''
         (commitToday ''t1'' ''2024-05-01'' (initialApp ''t0'' ''2024-05-01''))
   \<and> \<not> locked (dayState (commitToday ''t1'' ''2024-05-01'' (initialApp ''t0'' ''2024-05-01'')))
   \<and> tradingAllowed ''2024-05-01'' (computeSession 6 30)
         ((commitToday ''t1'' ''2024-05-01'' (initialApp ''t0'' ''2024-05-01''))
            \<lparr> overrideGuard := True \<rparr>)
   \<and> coinActionAllowed ''2024-05-01'' (computeSession 6 30)
         ((commitToday ''t1'' ''2024-05-01'' (initialApp ''t0'' ''2024-05-01''))
            \<lparr> overrideGuard := True \<rparr>)
         \<lparr> entryQuality = NO_EDGE, structureLabel = WAIT \<rparr>"
  using guard_override_scope [of "''2024-05-01''" "initialApp ''t0'' ''2024-05-01''"
          "computeSession 17 0" True "\<lparr> entryQuality = VALID, structureLabel = OK \<rparr>"]
        guard_override_scope [of "''2024-05-01''"
          "commitToday ''t1'' ''2024-05-01'' (initialApp ''t0'' ''2024-05-01'')"
          "computeSession 6 30" True "\<lparr> entryQuality = NO_EDGE, structureLabel = WAIT \<rparr>"]
  by (simp add: commitRequired_def initialApp_def commitToday_def Let_def)

subsection \<open>Trade ledger on a locked day\<close>

lemma lockedDialogApp_fields:
  "locked (dayState lockedDialogApp)" "trades (dayState lockedDialogApp) = []"
  "logOpen lockedDialogApp" "logSide lockedDialogApp = LONG"
  "logEntry lockedDialogApp = Fin 100" "logStop lockedDialogApp = Fin 95"
  "logExit lockedDialogApp = Fin 110"
  by (simp_all add: lockedDialogApp_def dialogApp_def committedApp_def endSessionNow_def
        clickLogTrade_def openLogFromCurrent_def commitToday_def initialApp_def Let_def
        tradingAllowed_def commitRequired_def computeSession_def sessionAllowedByCommit_def
        defaultCommit_def computeR_Fin)

lemma addTrade_finite:
  assumes "isFinite (computeR (logSide app) (logEntry app) (logStop app) (logExit app))"
  shows "\<exists>t. trades (dayState (addTrade uuid nowIso app)) = trades (dayState app) @ [t]
             \<and> id' t = uuid
             \<and> r t = computeR (logSide app) (logEntry app) (logStop app) (logExit app)"
    and "locked (dayState (addTrade uuid nowIso app)) = locked (dayState app)"
  using assms by (simp_all add: addTrade_def Let_def)

lemma addTrade_invalid:
  "\<not> isFinite (computeR (logSide app) (logEntry app) (logStop app) (logExit app))
     \<Longrightarrow> addTrade uuid nowIso app = app"
  by (simp add: addTrade_def Let_def)

lemma locked_blocks_dialog:
  "locked (dayState app) \<Longrightarrow>
     \<not> tradingAllowed todayKey si app \<and> clickLogTrade todayKey si app = app"
  by (simp add: tradingAllowed_def clickLogTrade_def)

lemma autoLock_keeps_lock:
  "locked (dayState app) \<Longrightarrow> locked (dayState (autoLock f todayKey app))"
  by (simp add: autoLock_def lockWith_def split: option.splits)

lemma unlock_only_by_reset:
  "locked (dayState app) \<Longrightarrow> \<not> locked (dayState (applyDayOp f todayKey op app))
     \<Longrightarrow> op = OpClearToday True"
  by (cases op)
     (auto simp: applyDayOp_def addTrade_def Let_def endSessionNow_def clearToday_def
        autoLock_keeps_lock split: if_splits)

text \<open>
  Claim C1, as stated, fails: \<open>addTrade\<close> never reads \<open>locked\<close>. On the locked day
  with the dialog still open, saving the typed trade appends it.
\<close>

theorem addTrade_on_locked_day:
  "locked (dayState lockedDialogApp)
   \<and> trades (dayState lockedDialogApp) = []
   \<and> length (trades (dayState (addTrade ''id1'' ''t2'' lockedDialogApp))) = 1
   \<and> trades (dayState (addTrade ''id1'' ''t2'' lockedDialogApp))
        \<noteq> trades (dayState lockedDialogApp)"
  by (simp add: lockedDialogApp_fields addTrade_def Let_def computeR_examples)

text \<open>
  Claim C1, amended. \<open>addTrade\<close> does not depend on the lock: with a finite R it
  appends the trade and leaves \<open>locked\<close> as it is, with an R that is not finite it
  changes nothing. What stops logging on a locked day is the Log Trade button: trading is
  not allowed, so the button is disabled and the dialog does not open. Of the operations on
  the day state (add a trade, end the session, the auto-lock, reset the day) only a
  confirmed reset takes a locked day to an unlocked one, and it leaves no trades and no
  lock.
\<close>

theorem locked_day_flow:
  "(isFinite (computeR (logSide app) (logEntry app) (logStop app) (logExit app)) \<longrightarrow>
      (\<exists>t. trades (dayState (addTrade uuid nowIso app)) = trades (dayState app) @ [t]
           \<and> id' t = uuid
           \<and> r t = computeR (logSide app) (logEntry app) (logStop app) (logExit app))
      \<and> locked (dayState (addTrade uuid nowIso app)) = locked (dayState app))
   \<and> (\<not> isFinite (computeR (logSide app) (logEntry app) (logStop app) (logExit app)) \<longrightarrow>
        addTrade uuid nowIso app = app)
   \<and> (locked (dayState app) \<longrightarrow>
        \<not> tradingAllowed todayKey si app \<and> clickLogTrade todayKey si app = app)
   \<and> (locked (dayState app) \<and> \<not> locked (dayState (applyDayOp f todayKey op app)) \<longrightarrow>
        op = OpClearToday True)
   \<and> dayState (clearToday True todayKey app)
       = \<lparr> dayKey = todayKey, locked = False, lockedReason = None, trades = [] \<rparr>"
  using addTrade_finite [of app uuid nowIso] addTrade_invalid [of app uuid nowIso]
        locked_blocks_dialog [of app todayKey si] unlock_only_by_reset [of app f todayKey op]
  by (simp add: clearToday_def)

theorem locked_day_flow_witness:
  "(\<exists>t. trades (dayState (addTrade ''id1'' ''t2'' lockedDialogApp)) = [t]
        \<and> id' t = ''id1'' \<and> r t = Fin 2)
   \<and> locked (dayState (addTrade ''id1'' ''t2'' lockedDialogApp))
   \<and> addTrade ''id1'' ''t2'' (lockedDialogApp \<lparr> logStop := Fin 100 \<rparr>)
        = lockedDialogApp \<lparr> logStop := Fin 100 \<rparr>
   \<and> \<not> tradingAllowed ''2024-05-01'' (computeSession 17 0) lockedDialogApp
   \<and> clickLogTrade ''2024-05-01'' (computeSession 17 0) lockedDialogApp = lockedDialogApp
   \<and> locked (dayState (applyDayOp toFixed2 ''2024-05-01'' (OpAddTrade ''id1'' ''t2'')
                lockedDialogApp))
   \<and> dayState (clearToday True ''2024-05-01'' lockedDialogApp)
       = \<lparr> dayKey = ''2024-05-01'', locked = False, lockedReason = None, trades = [] \<rparr>"
  using locked_day_flow [of lockedDialogApp "''id1''" "''t2''" "''2024-05-01''"
          "computeSession 17 0" toFixed2 "OpAddTrade ''id1'' ''t2''"]
        locked_day_flow [of "lockedDialogApp \<lparr> logStop := Fin 100 \<rparr>" "''id1''" "''t2''"
          "''2024-05-01''" "computeSession 17 0" toFixed2 "OpAddTrade ''id1'' ''t2''"]
        lockedDialogApp_fields
  by (simp add: computeR_examples)

subsection \<open>Commitment\<close>

lemma clamp_risk:
  "jle (Fin (1 / 10)) (clamp (Fin x) (Fin (1 / 10)) (Fin 5))
   \<and> jle (clamp (Fin x) (Fin (1 / 10)) (Fin 5)) (Fin 5)"
  by (simp add: clamp_def)

lemma floor_at_least_one:
  "is_integer (jmax (Fin 1) (jfloor (Fin x))) \<and> jle (Fin 1) (jmax (Fin 1) (jfloor (Fin x)))"
  by simp

text \<open>
  Claim C10. Whatever finite numbers the draft holds (a number input delivers no
  other), the contract that \<open>commitToday\<close> stores is normalized: its day key is today,
  its risk percentage lies between 0.1 and 5, its trade cap is an integer of at least 1,
  its daily loss cap is at least 0.5 and its cap on consecutive losses is an integer of
  at least 1.
\<close>

theorem commitToday_normalized:
  assumes "isFinite (CommitConfig.riskPct (commitDraft app))"
      and "isFinite (maxTrades (commitDraft app))"
      and "isFinite (maxDailyLossR (commitDraft app))"
      and "isFinite (maxConsecutiveLosses (commitDraft app))"
  shows "\<exists>c. commit (commitToday nowIso todayKey app) = Some c \<and> normalized todayKey c"
proof -
  obtain rp mt dl mc where d:
    "CommitConfig.riskPct (commitDraft app) = Fin rp" "maxTrades (commitDraft app) = Fin mt"
    "maxDailyLossR (commitDraft app) = Fin dl" "maxConsecutiveLosses (commitDraft app) = Fin mc"
    using assms by (auto elim!: isFinite.elims)
  show ?thesis
    using clamp_risk [of rp] floor_at_least_one [of mt] floor_at_least_one [of mc]
    by (simp add: commitToday_def Let_def normalized_def d)
qed

text \<open>
  A draft of yesterday with a trade cap of 0, a loss cap of -3, a cap of one half on
  consecutive losses and a risk of 50 percent.
\<close>

theorem commitToday_normalized_witness:
  "\<exists>c. commit (commitToday ''t1'' ''2024-05-01''
            ((initialApp ''t0'' ''2024-04-30'')
               \<lparr> commitDraft := (defaultCommit ''t0'' ''2024-04-30'')
                    \<lparr> maxTrades := Fin 0, maxDailyLossR := Fin (- 3),
                      maxConsecutiveLosses := Fin (1 / 2), CommitConfig.riskPct := Fin 50 \<rparr> \<rparr>)) = Some c
       \<and> normalized ''2024-05-01'' c"
  using commitToday_normalized [of
          "(initialApp ''t0'' ''2024-04-30'')
               \<lparr> commitDraft := (defaultCommit ''t0'' ''2024-04-30'')
                    \<lparr> maxTrades := Fin 0, maxDailyLossR := Fin (- 3),
                      maxConsecutiveLosses := Fin (1 / 2), CommitConfig.riskPct := Fin 50 \<rparr> \<rparr>"
          "''t1''" "''2024-05-01''"]
  by (simp add: initialApp_def defaultCommit_def)

text \<open>
  Outside that hypothesis \<open>Math.max\<close> and \<open>Math.min\<close> hand a NaN on: a draft
  with a NaN trade cap would be committed with a NaN trade cap.
\<close>

lemma commitToday_keeps_NaN:
  "maxTrades (commitDraft app) = NaN \<Longrightarrow>
     \<exists>c. commit (commitToday nowIso todayKey app) = Some c \<and> maxTrades c = NaN"
  by (simp add: commitToday_def Let_def)

subsection \<open>Local persistence\<close>

lemma loadCommit_Some:
  "loadCommit parse ls d = Some v \<Longrightarrow>
     get_prop v ''dayKey'' = Some (JStr d)
     \<and> (\<exists>raw. ls LS_COMMIT = GetString raw \<and> parse raw = Some v)"
  by (auto simp: loadCommit_def split: GetItem.splits if_splits option.splits)

lemma loadCommit_match:
  "ls LS_COMMIT = GetString raw \<Longrightarrow> raw \<noteq> [] \<Longrightarrow> parse raw = Some v \<Longrightarrow>
     loadCommit parse ls d = (if get_prop v ''dayKey'' = Some (JStr d) then Some v else None)"
  by (simp add: loadCommit_def)

lemma loadDayState_fresh:
  "ls LS_DAYSTATE = GetNull \<or> ls LS_DAYSTATE = GetThrows
     \<or> (\<exists>raw. ls LS_DAYSTATE = GetString raw
           \<and> (parse raw = None
               \<or> (\<exists>p. parse raw = Some p \<and> get_prop p ''dayKey'' \<noteq> Some (JStr d))))
   \<Longrightarrow> loadDayState parse ls d = freshDayState d"
  by (auto simp: loadDayState_def split: GetItem.splits if_splits option.splits)

text \<open>
  Claim C8. Loading for the day \<open>d\<close>: \<open>loadCommit\<close> returns a value only if that value
  is the stored, parsed record and its day key is \<open>d\<close>; a stored record is returned when
  its day key is \<open>d\<close> and \<open>null\<close> otherwise. \<open>loadDayState\<close> returns the fresh
  state (day key \<open>d\<close>, not locked, no trades) when the record is missing, cannot be
  read or parsed, or carries another day key.
\<close>

theorem load_discards_other_day:
  "(loadCommit parse ls d = Some v \<longrightarrow>
      get_prop v ''dayKey'' = Some (JStr d)
      \<and> (\<exists>raw. ls LS_COMMIT = GetString raw \<and> parse raw = Some v))
   \<and> (ls LS_COMMIT = GetString raw \<and> raw \<noteq> [] \<and> parse raw = Some v \<longrightarrow>
      loadCommit parse ls d = (if get_prop v ''dayKey'' = Some (JStr d) then Some v else None))
   \<and> (ls LS_DAYSTATE = GetNull \<or> ls LS_DAYSTATE = GetThrows
       \<or> (\<exists>raw. ls LS_DAYSTATE = GetString raw
             \<and> (parse raw = None
                 \<or> (\<exists>p. parse raw = Some p \<and> get_prop p ''dayKey'' \<noteq> Some (JStr d))))
      \<longrightarrow> loadDayState parse ls d = freshDayState d)
   \<and> get_prop (freshDayState d) ''dayKey'' = Some (JStr d)
   \<and> get_prop (freshDayState d) ''locked'' = Some (JBool False)
   \<and> get_prop (freshDayState d) ''trades'' = Some (JArr [])"
proof -
  have fresh: "get_prop (freshDayState d) ''dayKey'' = Some (JStr d)
               \<and> get_prop (freshDayState d) ''locked'' = Some (JBool False)
               \<and> get_prop (freshDayState d) ''trades'' = Some (JArr [])"
    by (simp add: freshDayState_def)
  show ?thesis
    using loadCommit_Some [of parse ls d v] loadCommit_match [of ls raw parse v d]
          loadDayState_fresh [of ls parse d] fresh
    by blast
qed

text \<open>
  The store of 30 April read on that day and on 1 May: the contract is returned on the
  first and is \<open>null\<close> on the second, and the locked day state gives way to the fresh
  one.
\<close>

theorem load_discards_other_day_witness:
  "loadCommit exampleParse exampleStore ''2024-04-30''
     = Some (JObj [(''dayKey'', JStr ''2024-04-30''), (''maxTrades'', JNum (Fin 2))])
   \<and> loadCommit exampleParse exampleStore ''2024-05-01'' = None
   \<and> loadDayState exampleParse exampleStore ''2024-05-01'' = freshDayState ''2024-05-01''
   \<and> get_prop (loadDayState exampleParse exampleStore ''2024-05-01'') ''locked''
        = Some (JBool False)"
  using load_discards_other_day [of exampleParse exampleStore "''2024-04-30''"
          "JObj [(''dayKey'', JStr ''2024-04-30''), (''maxTrades'', JNum (Fin 2))]" "''c1''"]
        load_discards_other_day [of exampleParse exampleStore "''2024-05-01''"
          "JObj [(''dayKey'', JStr ''2024-04-30''), (''maxTrades'', JNum (Fin 2))]" "''c1''"]
  by (simp add: exampleParse_def exampleStore_def LS_COMMIT_def LS_DAYSTATE_def)

subsection \<open>Refresh pipeline\<close>

lemma map_add_twice: "(m ++ n) ++ n = m ++ (n :: 'a \<rightharpoonup> 'b)"
  by (rule ext) (simp add: map_add_def split: option.split)

text \<open>
  Claim C9. A second \<open>refresh\<close> on the same upstream answers leaves the micro-metrics
  map and the structure map as the first one left them. Each refresh merges one map of new
  results, which depends on the upstream answers alone, over the existing map: the new
  results replace the entries of their own keys and every other entry stays.
\<close>

theorem refresh_idempotent:
  "microMap (refresh coins up t2 (refresh coins up t1 app)) = microMap (refresh coins up t1 app)
   \<and> structMap (refresh coins up t2 (refresh coins up t1 app))
       = structMap (refresh coins up t1 app)
   \<and> (\<exists>n ns. \<forall>a t. microMap (refresh coins up t a) = microMap a ++ n
                   \<and> structMap (refresh coins up t a) = structMap a ++ ns)"
proof (cases "markets up")
  case (Inl msg)
  then have "\<forall>a t. microMap (refresh coins up t a) = microMap a ++ Map.empty
                   \<and> structMap (refresh coins up t a) = structMap a ++ Map.empty"
    by (simp add: refresh_def)
  moreover from Inl have
    "microMap (refresh coins up t2 (refresh coins up t1 app)) = microMap (refresh coins up t1 app)
     \<and> structMap (refresh coins up t2 (refresh coins up t1 app))
         = structMap (refresh coins up t1 app)"
    by (simp add: refresh_def)
  ultimately show ?thesis by blast
next
  case (Inr rows)
  show ?thesis
  proof (cases "microPairs up (rankedTemp (merged_rows coins rows))")
    case None
    with Inr have
      "\<forall>a t. microMap (refresh coins up t a) = microMap a ++ Map.empty
             \<and> structMap (refresh coins up t a)
                 = structMap a ++ object_of_pairs
                     (structPairs up (merged_rows coins rows) (rankedTemp (merged_rows coins rows)))"
      by (simp add: refresh_def Let_def)
    moreover from Inr None have
      "microMap (refresh coins up t2 (refresh coins up t1 app)) = microMap (refresh coins up t1 app)
       \<and> structMap (refresh coins up t2 (refresh coins up t1 app))
           = structMap (refresh coins up t1 app)"
      by (simp add: refresh_def Let_def map_add_twice)
    ultimately show ?thesis by blast
  next
    case (Some pairs)
    with Inr have
      "\<forall>a t. microMap (refresh coins up t a) = microMap a ++ object_of_pairs pairs
             \<and> structMap (refresh coins up t a)
                 = structMap a ++ object_of_pairs
                     (structPairs up (merged_rows coins rows) (rankedTemp (merged_rows coins rows)))"
      by (simp add: refresh_def Let_def)
    moreover from Inr Some have
      "microMap (refresh coins up t2 (refresh coins up t1 app)) = microMap (refresh coins up t1 app)
       \<and> structMap (refresh coins up t2 (refresh coins up t1 app))
           = structMap (refresh coins up t1 app)"
      by (simp add: refresh_def Let_def map_add_twice)
    ultimately show ?thesis by blast
  qed
qed

end
